theory Spec2Isabelle
  imports Complex_Main "HOL-Library.AList"
begin

section \<open>Conventions of the embedding\<close>

text \<open>
  The decision engine of the repository is Python. Its numbers are Python floats and
  ints; the embedding uses exact rationals (\<open>rat\<close>) for both, so every formula
  below is the source's formula read over the rationals. Binary rounding error of
  floats is outside the model; at an exact decimal tie Python's \<open>round\<close> on a float
  may go either way, the model rounds half to even on the exact value.

  A raised Python exception is a value \<open>Exn msg\<close> (with \<open>msg\<close> what \<open>str(e)\<close>
  gives); a function that may raise returns \<open>exn + 'a\<close> with \<open>Inl\<close> the exception.
  Calls into libraries and remote services (model pipelines, regular expressions, the
  text generator, the retrieval store) are not code of the repository: their outcomes
  are parameters of the functions that consume them.
\<close>

datatype exn = Exn string

fun str_exn :: "exn \<Rightarrow> string" where
  "str_exn (Exn m) = m"

definition ZeroDivisionError :: exn where
  "ZeroDivisionError = Exn ''division by zero''"

definition TypeError :: exn where
  "TypeError = Exn ''TypeError''"

definition AttributeError :: exn where
  "AttributeError = Exn ''AttributeError''"

subsection \<open>Python's round(x, ndigits)\<close>

definition round_half_even :: "rat \<Rightarrow> int" where
  "round_half_even y =
     (let f = \<lfloor>y\<rfloor>; d = y - of_int f
      in if d < 1 / 2 then f
         else if 1 / 2 < d then f + 1
         else if even f then f else f + 1)"

definition py_round :: "rat \<Rightarrow> nat \<Rightarrow> rat" where
  "py_round x ndigits = of_int (round_half_even (x * 10 ^ ndigits)) / 10 ^ ndigits"

section \<open>Configuration (app/config.py)\<close>

record settings =
  fraud_threshold :: rat
  cache_ttl :: nat
  auto_approve_threshold :: int
  auto_reject_threshold :: int
  requires_human_review_min :: int
  requires_human_review_max :: int

definition default_settings :: settings where
  "default_settings =
     \<lparr> fraud_threshold = 0.75, cache_ttl = 3600,
       auto_approve_threshold = 30, auto_reject_threshold = 85,
       requires_human_review_min = 70, requires_human_review_max = 85 \<rparr>"

section \<open>Risk aggregator (app/services/risk_service.py)\<close>

datatype decision = APPROVE | REJECT | MANUAL_REVIEW

text \<open>\<open>_make_underwriting_decision\<close>: the decision and its confidence.\<close>

definition make_underwriting_decision :: "settings \<Rightarrow> rat \<Rightarrow> decision \<times> rat" where
  "make_underwriting_decision st risk_score =
     (if risk_score \<le> of_int (auto_approve_threshold st) then (APPROVE, 0.95)
      else if of_int (auto_reject_threshold st) \<le> risk_score then (REJECT, 0.90)
      else if of_int (requires_human_review_min st) \<le> risk_score
              \<and> risk_score \<le> of_int (requires_human_review_max st)
           then (MANUAL_REVIEW, 0.70)
      else if risk_score < of_int (requires_human_review_min st) then (APPROVE, 0.80)
      else (REJECT, 0.85))"

record premium =
  annual :: rat
  monthly :: rat
  base_rate :: rat
  risk_multiplier :: rat
  currency :: string

text \<open>The rate table of \<open>_calculate_premium\<close> (annual per 100k of coverage).\<close>

definition base_rates :: "(string \<times> rat) list" where
  "base_rates = [(''life'', 500), (''health'', 3000), (''auto'', 1200), (''home'', 800)]"

definition calculate_premium :: "rat \<Rightarrow> rat \<Rightarrow> string \<Rightarrow> premium" where
  "calculate_premium risk_score coverage_amount policy_type =
     (let rate = (case map_of base_rates policy_type of Some r \<Rightarrow> r | None \<Rightarrow> 1000);
          multiplier = 1 + risk_score / 100;
          annual_premium = (coverage_amount / 100000) * rate * multiplier
      in \<lparr> annual = py_round annual_premium 2,
           monthly = py_round (annual_premium / 12) 2,
           base_rate = rate,
           risk_multiplier = py_round multiplier 2,
           currency = ''USD'' \<rparr>)"

section \<open>Strings and JSON values\<close>

text \<open>
  Text is a list of characters; the whitespace of \<open>str.split\<close> and \<open>str.strip\<close> is
  the ASCII whitespace (space, tab, line feed, vertical tab, form feed, carriage return
  and the separators 0x1C..0x1F).
\<close>

definition py_isspace :: "char \<Rightarrow> bool" where
  "py_isspace c = (of_char c \<in> set [9, 10, 11, 12, 13, 28, 29, 30, 31, 32 :: nat])"

definition py_strip :: "string \<Rightarrow> string" where
  "py_strip s = rev (dropWhile py_isspace (rev (dropWhile py_isspace s)))"

text \<open>\<open>str.split()\<close> without arguments: the maximal runs of non-whitespace.\<close>

fun split_words :: "string \<Rightarrow> string \<Rightarrow> string list" where
  "split_words cur [] = (if cur = [] then [] else [cur])"
| "split_words cur (c # cs) =
     (if py_isspace c then (if cur = [] then split_words [] cs else cur # split_words [] cs)
      else split_words (cur @ [c]) cs)"

definition py_split :: "string \<Rightarrow> string list" where
  "py_split s = split_words [] s"

definition startswith :: "string \<Rightarrow> string \<Rightarrow> bool" where
  "startswith s p = (take (length p) s = p)"

definition endswith :: "string \<Rightarrow> string \<Rightarrow> bool" where
  "endswith s p = (length p \<le> length s \<and> drop (length s - length p) s = p)"

text \<open>Fixed-point formatting of a number, as in the f-string fields \<open>{x:.3f}\<close>.\<close>

fun nat_digits :: "nat \<Rightarrow> string" where
  "nat_digits n =
     (if n < 10 then [''0123456789'' ! n]
      else nat_digits (n div 10) @ [''0123456789'' ! (n mod 10)])"

definition format_fixed :: "nat \<Rightarrow> rat \<Rightarrow> string" where
  "format_fixed nd x =
     (let k = round_half_even (x * 10 ^ nd);
          a = nat \<bar>k\<bar>;
          frac = nat_digits (a mod 10 ^ nd)
      in (if k < 0 then ''-'' else []) @ nat_digits (a div 10 ^ nd) @
         (if nd = 0 then [] else ''.'' @ replicate (nd - length frac) CHR ''0'' @ frac))"

text \<open>
  What \<open>json.loads\<close> returns: a JSON value. An object is an association list in
  insertion order (a Python dict); \<open>dict_set\<close> overwrites a key in place or appends it.
\<close>

datatype json =
    JNull
  | JBool bool
  | JNum rat
  | JStr string
  | JArr "json list"
  | JObj "(string \<times> json) list"

type_synonym pydict = "(string \<times> json) list"

definition dict_get :: "pydict \<Rightarrow> string \<Rightarrow> json option" where
  "dict_get d k = map_of d k"

definition dict_set :: "pydict \<Rightarrow> string \<Rightarrow> json \<Rightarrow> pydict" where
  "dict_set d k v = AList.update k v d"

text \<open>Python truthiness (\<open>if x\<close>, \<open>not x\<close>) of a JSON value.\<close>

fun truthy :: "json \<Rightarrow> bool" where
  "truthy JNull = False"
| "truthy (JBool b) = b"
| "truthy (JNum x) = (x \<noteq> 0)"
| "truthy (JStr s) = (s \<noteq> [])"
| "truthy (JArr xs) = (xs \<noteq> [])"
| "truthy (JObj kvs) = (kvs \<noteq> [])"

text \<open>\<open>len(x)\<close>: numbers, booleans and None have no length (TypeError).\<close>

fun py_len :: "json \<Rightarrow> exn + nat" where
  "py_len (JStr s) = Inr (length s)"
| "py_len (JArr xs) = Inr (length xs)"
| "py_len (JObj kvs) = Inr (length kvs)"
| "py_len _ = Inl TypeError"

text \<open>The number a value stands for in arithmetic and comparisons (bool is an int).\<close>

fun as_number :: "json \<Rightarrow> rat option" where
  "as_number (JNum x) = Some x"
| "as_number (JBool b) = Some (if b then 1 else 0)"
| "as_number _ = None"

text \<open>The operator \<open>+\<close>: list and string concatenation, numeric addition, else TypeError.\<close>

fun py_add :: "json \<Rightarrow> json \<Rightarrow> exn + json" where
  "py_add (JArr xs) (JArr ys) = Inr (JArr (xs @ ys))"
| "py_add (JStr s) (JStr t) = Inr (JStr (s @ t))"
| "py_add a b =
     (case (as_number a, as_number b) of
        (Some x, Some y) \<Rightarrow> Inr (JNum (x + y))
      | _ \<Rightarrow> Inl TypeError)"

text \<open>
  Dictionary keys: lists and objects are unhashable (TypeError); \<open>True\<close> and \<open>1\<close>,
  \<open>False\<close> and \<open>0\<close> are the same key.
\<close>

fun hash_key :: "json \<Rightarrow> exn + json" where
  "hash_key (JArr xs) = Inl TypeError"
| "hash_key (JObj kvs) = Inl TypeError"
| "hash_key (JBool b) = Inr (JNum (if b then 1 else 0))"
| "hash_key v = Inr v"

text \<open>
  \<open>list(dict.fromkeys(xs))\<close> on a list: the first occurrence of every key, in order.
  The accumulator holds the keys seen so far (normalised) and the output so far.
\<close>

fun fromkeys_loop :: "json list \<Rightarrow> json list \<Rightarrow> json list \<Rightarrow> exn + json list" where
  "fromkeys_loop seen out [] = Inr out"
| "fromkeys_loop seen out (x # xs) =
     (case hash_key x of
        Inl e \<Rightarrow> Inl e
      | Inr k \<Rightarrow> if k \<in> set seen then fromkeys_loop seen out xs
                else fromkeys_loop (seen @ [k]) (out @ [x]) xs)"

text \<open>Iterating a value: a list gives its elements, a string its characters.\<close>

fun py_iter :: "json \<Rightarrow> exn + json list" where
  "py_iter (JArr xs) = Inr xs"
| "py_iter (JStr s) = Inr (map (\<lambda>c. JStr [c]) s)"
| "py_iter (JObj kvs) = Inr (map (\<lambda>(k, v). JStr k) kvs)"
| "py_iter _ = Inl TypeError"

definition list_dict_fromkeys :: "json \<Rightarrow> exn + json list" where
  "list_dict_fromkeys v =
     (case py_iter v of Inl e \<Rightarrow> Inl e | Inr xs \<Rightarrow> fromkeys_loop [] [] xs)"

section \<open>Fraud ensemble (app/services/fraud_service.py)\<close>

record detection_result =
  dr_score :: rat
  dr_indicators :: "string list"

subsection \<open>Signal detectors\<close>

text \<open>
  What the regular expressions report on the text: for every compiled pattern of
  \<open>_fraud_patterns\<close>, in order, its source and whether \<open>pattern.search(text)\<close> matched;
  and the number of date-like substrings \<open>re.findall\<close> returns.
\<close>

record regex_obs =
  pattern_search :: "(string \<times> bool) list"
  date_count :: nat

fun pattern_loop :: "(string \<times> bool) list \<Rightarrow> rat \<times> string list \<Rightarrow> rat \<times> string list" where
  "pattern_loop [] acc = acc"
| "pattern_loop ((p, hit) # ps) (s, ind) =
     pattern_loop ps
       (if hit then (s + 0.15, ind @ [''Pattern match: '' @ take 50 p]) else (s, ind))"

definition pattern_based_detection :: "regex_obs \<Rightarrow> string \<Rightarrow> detection_result" where
  "pattern_based_detection rx text =
     (let (s0, i0) = pattern_loop (pattern_search rx) (0, []);
          (s1, i1) = (if length (py_split text) < 20
                      then (s0 + 0.1, i0 @ [''Unusually brief description'']) else (s0, i0));
          (s2, i2) = (if 3 < count_list text CHR ''!''
                      then (s1 + 0.05, i1 @ [''Excessive urgency markers'']) else (s1, i1));
          (s3, i3) = (if 5 < date_count rx
                      then (s2 + 0.1, i2 @ [''Multiple conflicting dates'']) else (s2, i2))
      in \<lparr> dr_score = min s3 1, dr_indicators = i3 \<rparr>)"

text \<open>The first entry of what a transformers pipeline returns, or the exception it raised.\<close>

record classification =
  cl_label :: string
  cl_score :: rat

definition ml_based_detection :: "exn + classification \<Rightarrow> detection_result" where
  "ml_based_detection classified =
     (case classified of
        Inl e \<Rightarrow> \<lparr> dr_score = 0.5, dr_indicators = [] \<rparr>
      | Inr r \<Rightarrow>
          if cl_label r \<in> set [''LABEL_1'', ''POSITIVE'', ''FRAUD'']
          then \<lparr> dr_score = cl_score r,
                 dr_indicators = [''ML detected fraud signals (confidence: '' @
                                  format_fixed 2 (cl_score r) @ '')''] \<rparr>
          else \<lparr> dr_score = 1 - cl_score r, dr_indicators = [] \<rparr>)"

definition sentiment_based_detection :: "exn + classification \<Rightarrow> detection_result" where
  "sentiment_based_detection sentiment =
     (case sentiment of
        Inl e \<Rightarrow> \<lparr> dr_score = 0.0, dr_indicators = [] \<rparr>
      | Inr r \<Rightarrow>
          if cl_label r = ''NEGATIVE'' \<and> 0.95 < cl_score r
          then \<lparr> dr_score = 0.3,
                 dr_indicators = [''Extremely negative sentiment (possible manipulation)''] \<rparr>
          else if cl_label r = ''POSITIVE'' \<and> 0.95 < cl_score r
          then \<lparr> dr_score = 0.2, dr_indicators = [''Unusually positive sentiment''] \<rparr>
          else \<lparr> dr_score = 0.0, dr_indicators = [] \<rparr>)"

text \<open>
  \<open>_statistical_anomaly_detection\<close>. The mean word length of a text without words is
  NaN, and \<open>NaN > 10\<close> is false. A claim amount that is not a number makes the
  comparison raise; the detector's own handler then returns score 0, as it does when
  building the (otherwise unused) numpy feature vector of \<open>_extract_features\<close> raises:
  \<open>features\<close> is the exception numpy raised there, if any.
\<close>

definition mean_word_length_exceeds :: "string \<Rightarrow> rat \<Rightarrow> bool" where
  "mean_word_length_exceeds text bound =
     (let ws = py_split text
      in ws \<noteq> [] \<and> bound < of_nat (sum_list (map length ws)) / of_nat (length ws))"

definition metadata_claim_amount :: "pydict option \<Rightarrow> json" where
  "metadata_claim_amount metadata =
     (case metadata of
        None \<Rightarrow> JNum 0
      | Some m \<Rightarrow> if m = [] then JNum 0
                  else (case dict_get m ''claim_amount'' of None \<Rightarrow> JNum 0 | Some v \<Rightarrow> v))"

definition statistical_anomaly_detection ::
  "exn option \<Rightarrow> string \<Rightarrow> pydict option \<Rightarrow> detection_result" where
  "statistical_anomaly_detection features text metadata =
     (case (features, as_number (metadata_claim_amount metadata)) of
        (Some e, _) \<Rightarrow> \<lparr> dr_score = 0.0, dr_indicators = [] \<rparr>
      | (None, None) \<Rightarrow> \<lparr> dr_score = 0.0, dr_indicators = [] \<rparr>
      | (None, Some claim_amount) \<Rightarrow>
          let (s1, i1) = (if mean_word_length_exceeds text 10
                          then (0.1, [''Unusually complex language'']) else (0, []));
              (s2, i2) = (if 50000 < claim_amount
                          then (s1 + 0.15, i1 @ [''High claim amount'']) else (s1, i1))
          in \<lparr> dr_score = min s2 1, dr_indicators = i2 \<rparr>)"

text \<open>
  What \<open>asyncio.gather(..., return_exceptions=True)\<close> hands to the aggregation: one
  entry per detector in the order pattern, model, sentiment, statistical. The last three
  detectors catch every exception themselves; the pattern detector has no handler, and
  on a string it has nothing that raises.
\<close>

definition gather_detectors ::
  "regex_obs \<Rightarrow> exn + classification \<Rightarrow> exn + classification \<Rightarrow> exn option \<Rightarrow> string
   \<Rightarrow> pydict option \<Rightarrow> (exn + detection_result) list" where
  "gather_detectors rx classified sentiment features text metadata =
     [Inr (pattern_based_detection rx text),
      Inr (ml_based_detection classified),
      Inr (sentiment_based_detection sentiment),
      Inr (statistical_anomaly_detection features text metadata)]"

subsection \<open>Aggregation\<close>

datatype risk_level = MINIMAL | LOW | MEDIUM | HIGH | CRITICAL | UNKNOWN

record assessment =
  fraud_score :: rat
  is_suspicious :: bool
  confidence :: rat
  indicators :: "string list"
  fraud_risk_level :: risk_level
  recommendation :: string
  detection_methods :: "(rat \<times> rat \<times> rat \<times> rat) option"
  explainability :: bool
  error :: "string option"

text \<open>The loop over the gathered results: an exception is logged and skipped.\<close>

fun fraud_scores_of :: "(exn + detection_result) list \<Rightarrow> rat list" where
  "fraud_scores_of [] = []"
| "fraud_scores_of (Inl e # rs) = fraud_scores_of rs"
| "fraud_scores_of (Inr r # rs) = dr_score r # fraud_scores_of rs"

fun indicators_of :: "(exn + detection_result) list \<Rightarrow> string list" where
  "indicators_of [] = []"
| "indicators_of (Inl e # rs) = indicators_of rs"
| "indicators_of (Inr r # rs) = dr_indicators r @ indicators_of rs"

definition weights :: "rat list" where
  "weights = [0.2, 0.4, 0.2, 0.2]"

text \<open>
  \<open>sum(s * w for s, w in zip(fraud_scores, weights[:n])) / sum(weights[:n])\<close> with
  \<open>n = len(fraud_scores)\<close>; the division raises when no weight is used.
\<close>

definition weighted_average :: "rat list \<Rightarrow> exn + rat" where
  "weighted_average fraud_scores =
     (let used = take (length fraud_scores) weights
      in if sum_list used = 0 then Inl ZeroDivisionError
         else Inr (sum_list (map (\<lambda>(s, w). s * w) (zip fraud_scores used)) / sum_list used))"

definition assess_risk_level :: "rat \<Rightarrow> risk_level \<times> string" where
  "assess_risk_level s =
     (if 0.85 \<le> s then
        (CRITICAL, ''REJECT - High fraud probability. Escalate to fraud investigation unit.'')
      else if 0.75 \<le> s then
        (HIGH, ''FLAG - Suspicious activity detected. Mandatory manual review required.'')
      else if 0.50 \<le> s then
        (MEDIUM, ''REVIEW - Some fraud indicators present. Recommend additional verification.'')
      else if 0.30 \<le> s then
        (LOW, ''PROCEED - Low risk, but monitor for patterns.'')
      else (MINIMAL, ''APPROVE - No significant fraud indicators detected.''))"

text \<open>\<open>numpy.var\<close>: the population variance.\<close>

definition variance :: "rat list \<Rightarrow> rat" where
  "variance xs =
     (let n = of_nat (length xs); m = sum_list xs / n
      in sum_list (map (\<lambda>x. (x - m) ^ 2) xs) / n)"

definition calculate_confidence :: "rat list \<Rightarrow> rat" where
  "calculate_confidence scores =
     (if length scores < 2 then 0.5
      else py_round (1 - min (variance scores * 2) 0.5) 3)"

definition nth_or_zero :: "rat list \<Rightarrow> nat \<Rightarrow> rat" where
  "nth_or_zero xs i = (if i < length xs then xs ! i else 0)"

text \<open>
  The body of the \<open>try\<close> block of \<open>detect_fraud\<close> after a cache miss, up to the result
  dictionary. \<open>list(set(indicators))\<close> has no defined order; the model keeps one
  occurrence of each indicator. The timestamp is left out.
\<close>

definition ensemble ::
  "settings \<Rightarrow> (exn + detection_result) list \<Rightarrow> bool \<Rightarrow> exn + assessment" where
  "ensemble st results enable_shap =
     (let fraud_scores = fraud_scores_of results;
          inds = indicators_of results
      in case weighted_average fraud_scores of
           Inl e \<Rightarrow> Inl e
         | Inr final_score \<Rightarrow>
             let (level, advice) = assess_risk_level final_score
             in Inr \<lparr> fraud_score = py_round final_score 3,
                      is_suspicious = (fraud_threshold st < final_score),
                      confidence = calculate_confidence fraud_scores,
                      indicators = remdups inds,
                      fraud_risk_level = level,
                      recommendation = advice,
                      detection_methods =
                        Some (nth_or_zero fraud_scores 0, nth_or_zero fraud_scores 1,
                              nth_or_zero fraud_scores 2, nth_or_zero fraud_scores 3),
                      explainability = enable_shap,
                      error = None \<rparr>)"

text \<open>The dictionary returned by the \<open>except Exception\<close> handler of \<open>detect_fraud\<close>.\<close>

definition degraded_assessment :: "exn \<Rightarrow> assessment" where
  "degraded_assessment e =
     \<lparr> fraud_score = 0.5, is_suspicious = False, confidence = 0.0,
       indicators = [''Error in detection''],
       fraud_risk_level = UNKNOWN,
       recommendation = ''Manual review required due to system error'',
       detection_methods = None, explainability = False,
       error = Some (str_exn e) \<rparr>"

text \<open>
  The surroundings of \<open>detect_fraud\<close>: what \<open>_load_models\<close> raises (it logs and re-raises
  a loading failure), and the MD5 hex digest behind the cache key. The cache maps a key
  to the stored assessment; an entry whose lifetime has ended is an absent key.
\<close>

record fraud_world =
  load_models :: "exn option"
  md5_hexdigest :: "string \<Rightarrow> string"

type_synonym cache = "string \<rightharpoonup> assessment"

definition cache_key :: "fraud_world \<Rightarrow> string \<Rightarrow> string" where
  "cache_key w text = ''fraud:'' @ md5_hexdigest w text"

text \<open>
  \<open>detect_fraud\<close>: the model loader runs before the \<open>try\<close> block, so what it raises
  reaches the caller; everything after it is inside the block. The detectors' gathered
  results are an argument. The result is the returned dictionary (or the exception
  raised) and the cache afterwards.
\<close>

definition detect_fraud ::
  "settings \<Rightarrow> fraud_world \<Rightarrow> cache \<Rightarrow> string \<Rightarrow> (exn + detection_result) list \<Rightarrow> bool
   \<Rightarrow> (exn + assessment) \<times> cache" where
  "detect_fraud st w c text results enable_shap =
     (case load_models w of
        Some e \<Rightarrow> (Inl e, c)
      | None \<Rightarrow>
          (case c (cache_key w text) of
             Some cached \<Rightarrow> (Inr cached, c)
           | None \<Rightarrow>
               (case ensemble st results enable_shap of
                  Inl e \<Rightarrow> (Inr (degraded_assessment e), c)
                | Inr result \<Rightarrow> (Inr result, c(cache_key w text \<mapsto> result)))))"

subsection \<open>Notions used in the statements\<close>

text \<open>The score a call of \<open>detect_fraud\<close> reports, if it returns.\<close>

definition reported_score :: "exn + assessment \<Rightarrow> rat option" where
  "reported_score outcome = (case outcome of Inl e \<Rightarrow> None | Inr a \<Rightarrow> Some (fraud_score a))"

text \<open>Every cached assessment carries a score between 0 and 1.\<close>

definition cache_ok :: "cache \<Rightarrow> bool" where
  "cache_ok c = (\<forall>k a. c k = Some a \<longrightarrow> 0 \<le> fraud_score a \<and> fraud_score a \<le> 1)"

section \<open>Risk assessment pipeline (app/services/risk_service.py)\<close>

text \<open>The dictionary of \<open>_calculate_base_risk_score\<close>.\<close>

record base_risk =
  br_score :: rat
  br_factors :: "string list"

text \<open>
  \<open>_aggregate_risk_score\<close>. The financial and external dictionaries carry a
  \<open>risk_adjustment\<close> entry or are empty (after a failed task); the fraud result is
  absent when the check is disabled or failed.
\<close>

definition aggregate_risk_score ::
  "base_risk \<Rightarrow> rat option \<Rightarrow> rat option \<Rightarrow> assessment option \<Rightarrow> rat" where
  "aggregate_risk_score base financial external fraud =
     (let s0 = br_score base;
          s1 = s0 + (case financial of None \<Rightarrow> 0 | Some a \<Rightarrow> a);
          s2 = s1 + (case external of None \<Rightarrow> 0 | Some a \<Rightarrow> a);
          s3 = (case fraud of
                  None \<Rightarrow> s2
                | Some f \<Rightarrow> if 0.5 < fraud_score f then s2 + fraud_score f * 30 else s2)
      in min (max s3 0) 100)"

record compliance =
  compliant :: bool
  issues :: "string list"
  warnings :: "string list"

text \<open>
  The outcomes of the steps of \<open>assess_risk\<close> that lie outside this development: the
  parsing of the applicant data, the five tasks joined by
  \<open>asyncio.gather(..., return_exceptions=True)\<close>, and the later steps, each either
  raising or returning. (\<open>_load_models\<close> of the risk assessor catches its own failure
  and \<open>_generate_detailed_assessment\<close> returns a fixed text on failure: neither
  raises.)
\<close>

record risk_world =
  parse_applicant_data :: "exn option"
  base_task :: "exn + base_risk"
  financial_task :: "exn + rat"
  external_task :: "exn + rat"
  context_task :: "exn + string"
  fraud_task :: "exn + assessment"
  generate_detailed_assessment :: string
  generate_recommendations :: "exn + string list"
  check_compliance :: "exn + compliance"
  run_scenario_analysis :: "exn + string list"

record risk_assessment =
  risk_score :: rat
  ra_decision :: decision
  ra_confidence :: "rat option"
  premium_estimate :: "premium option"
  risk_breakdown :: "(rat \<times> rat \<times> rat \<times> rat) option"
  risk_factors :: "string list"
  recommendations :: "string list"
  detailed_assessment :: string
  compliance_report :: "compliance option"
  scenario_analysis :: "string list option"
  reason :: "string option"
  ra_recommendation :: "string option"
  fraud_details :: "assessment option"
  ra_error :: "string option"

definition fraud_rejection :: "assessment \<Rightarrow> risk_assessment" where
  "fraud_rejection f =
     \<lparr> risk_score = 100, ra_decision = REJECT, ra_confidence = None,
       premium_estimate = None, risk_breakdown = None, risk_factors = [],
       recommendations = [], detailed_assessment = [], compliance_report = None,
       scenario_analysis = None,
       reason = Some ''Application flagged for potential fraud'',
       ra_recommendation = Some ''Escalate to fraud investigation unit'',
       fraud_details = Some f, ra_error = None \<rparr>"

text \<open>The dictionary returned by the \<open>except Exception\<close> handler of \<open>assess_risk\<close>.\<close>

definition risk_fallback :: "exn \<Rightarrow> risk_assessment" where
  "risk_fallback e =
     \<lparr> risk_score = 50, ra_decision = MANUAL_REVIEW, ra_confidence = None,
       premium_estimate = None, risk_breakdown = None, risk_factors = [],
       recommendations = [], detailed_assessment = [], compliance_report = None,
       scenario_analysis = None,
       reason = Some (''Error in automated assessment: '' @ str_exn e),
       ra_recommendation = Some ''Requires manual underwriting review'',
       fraud_details = None, ra_error = Some (str_exn e) \<rparr>"

text \<open>
  \<open>assess_risk\<close> after the fraud flag has been checked: score, decision, premium and
  the remaining steps, up to the result dictionary.
\<close>

definition complete_assessment ::
  "settings \<Rightarrow> risk_world \<Rightarrow> string \<Rightarrow> rat option \<Rightarrow> bool \<Rightarrow> base_risk \<Rightarrow> rat option
   \<Rightarrow> rat option \<Rightarrow> assessment option \<Rightarrow> exn + risk_assessment" where
  "complete_assessment st w policy_type coverage_amount enable_explainability base_score
     financial_analysis external_factors fraud_result =
     (let final_score =
            aggregate_risk_score base_score financial_analysis external_factors fraud_result;
          (dec, conf) = make_underwriting_decision st final_score;
          coverage = (case coverage_amount of
                        None \<Rightarrow> 100000
                      | Some c \<Rightarrow> if c = 0 then 100000 else c);
          prem = calculate_premium final_score coverage policy_type
      in case generate_recommendations w of
           Inl e \<Rightarrow> Inl e
         | Inr recs \<Rightarrow>
             (case check_compliance w of
                Inl e \<Rightarrow> Inl e
              | Inr report \<Rightarrow>
                  (case (if enable_explainability
                         then map_sum id Some (run_scenario_analysis w)
                         else Inr None) of
                     Inl e \<Rightarrow> Inl e
                   | Inr scen \<Rightarrow>
                       Inr \<lparr> risk_score = py_round final_score 2,
                             ra_decision = dec,
                             ra_confidence = Some conf,
                             premium_estimate = Some prem,
                             risk_breakdown =
                               Some (br_score base_score,
                                     (case financial_analysis of None \<Rightarrow> 0 | Some a \<Rightarrow> a),
                                     (case external_factors of None \<Rightarrow> 0 | Some a \<Rightarrow> a),
                                     (case fraud_result of
                                        None \<Rightarrow> 0 | Some f \<Rightarrow> fraud_score f)),
                             risk_factors = br_factors base_score,
                             recommendations = recs,
                             detailed_assessment =
                               (if enable_explainability
                                then generate_detailed_assessment w else []),
                             compliance_report = Some report,
                             scenario_analysis = scen,
                             reason = None, ra_recommendation = None,
                             fraud_details = None, ra_error = None \<rparr>)))"

text \<open>The body of the \<open>try\<close> block of \<open>assess_risk\<close>; \<open>Inl\<close> is an exception leaving it.\<close>

definition assess_risk_body ::
  "settings \<Rightarrow> risk_world \<Rightarrow> string \<Rightarrow> rat option \<Rightarrow> bool \<Rightarrow> bool \<Rightarrow> exn + risk_assessment" where
  "assess_risk_body st w policy_type coverage_amount enable_fraud_check enable_explainability =
     (case parse_applicant_data w of
        Some e \<Rightarrow> Inl e
      | None \<Rightarrow>
          let base_score = (case base_task w of Inl e \<Rightarrow> \<lparr> br_score = 50, br_factors = [] \<rparr>
                            | Inr b \<Rightarrow> b);
              financial_analysis = (case financial_task w of Inl e \<Rightarrow> None | Inr a \<Rightarrow> Some a);
              external_factors = (case external_task w of Inl e \<Rightarrow> None | Inr a \<Rightarrow> Some a);
              fraud_result = (if enable_fraud_check
                              then (case fraud_task w of Inl e \<Rightarrow> None | Inr f \<Rightarrow> Some f)
                              else None)
          in (case fraud_result of
                Some f \<Rightarrow>
                  if is_suspicious f then Inr (fraud_rejection f)
                  else complete_assessment st w policy_type coverage_amount
                         enable_explainability base_score financial_analysis external_factors
                         fraud_result
              | None \<Rightarrow>
                  complete_assessment st w policy_type coverage_amount enable_explainability
                    base_score financial_analysis external_factors fraud_result))"

definition assess_risk ::
  "settings \<Rightarrow> risk_world \<Rightarrow> string \<Rightarrow> rat option \<Rightarrow> bool \<Rightarrow> bool \<Rightarrow> risk_assessment" where
  "assess_risk st w policy_type coverage_amount enable_fraud_check enable_explainability =
     (case assess_risk_body st w policy_type coverage_amount enable_fraud_check
             enable_explainability of
        Inl e \<Rightarrow> risk_fallback e
      | Inr result \<Rightarrow> result)"

section \<open>Claims adjudicator (app/routes/claim.py)\<close>

datatype http_error = HTTPException nat string

record claim_request =
  claim_description :: "string option"
  query :: "string option"
  submitted_documents :: "string list option"

text \<open>
  The collaborators of the endpoint: the fraud ensemble on the narrative, the retrieval
  of policy context (embedding and vector search; the chunks found), the text generator
  on the prompt built from context and claim, and \<open>json.loads\<close>. \<open>render\<close> is how
  an f-string prints a value.
\<close>

record claim_world =
  run_detect_fraud :: "string \<Rightarrow> exn + assessment"
  retrieve_context :: "string \<Rightarrow> exn + string list"
  generate_response :: "string \<Rightarrow> claim_request \<Rightarrow> exn + string"
  json_loads :: "string \<Rightarrow> exn + json"
  render :: "json \<Rightarrow> string"

text \<open>The collaborator calls a run makes, in order.\<close>

datatype call = DetectFraud | RetrieveContext | GenerateResponse

definition join :: "string \<Rightarrow> string list \<Rightarrow> string" where
  "join sep xs = (case xs of [] \<Rightarrow> [] | y # ys \<Rightarrow> y @ concat (map (\<lambda>z. sep @ z) ys))"

definition newline :: string where
  "newline = [char_of (10 :: nat)]"

text \<open>\<open>_clean_json\<close>: strip Markdown fences, then parse.\<close>

definition clean_json :: "(string \<Rightarrow> exn + json) \<Rightarrow> string \<Rightarrow> exn + json" where
  "clean_json loads raw =
     (let t0 = py_strip raw;
          t1 = (if startswith t0 ''```json'' then drop 7 t0 else t0);
          t2 = (if startswith t1 ''```'' then drop 3 t1 else t1);
          t3 = (if endswith t2 ''```'' then take (length t2 - 3) t2 else t2)
      in loads (py_strip t3))"

text \<open>
  The fixed message texts of the source are long; the model keeps their first words and
  every value that is put into them, and leaves out the rest of the wording, the line
  breaks and the typographic characters. No verdict depends on a message.
\<close>

definition build_under_investigation_response :: "assessment \<Rightarrow> pydict" where
  "build_under_investigation_response fraud_result =
     [(''verdict'', JStr ''UNDER_INVESTIGATION''),
      (''coverage_applicable'', JBool False),
      (''fraud_risk'', JStr ''HIGH''),
      (''fraud_score'', JNum (py_round (fraud_score fraud_result) 3)),
      (''missing_documents'', JArr []),
      (''fraud_signals_found'', JArr (map JStr (indicators fraud_result))),
      (''reason'', JStr ''Our automated fraud detection system identified one or more high-risk signals in this claim submission.''),
      (''claimant_message'', JStr ''Dear Claimant, Thank you for submitting your claim.''),
      (''required_documents_checklist'',
         JArr (map JStr [''Government-issued photo ID'', ''Original policy certificate'',
           ''Incident report / police report'', ''Two independent witness statements'',
           ''Photographs of damage / evidence'', ''Itemised cost estimate or receipts''])),
      (''estimated_coverage_amount'', JNum 0),
      (''policy_references'', JArr []),
      (''next_steps'',
         JArr (map JStr [''A senior claims investigator will contact you.'',
           ''Gather all supporting documents and keep them ready.'',
           ''Do not repair or dispose of damaged items until the investigation is complete.'',
           ''You may re-submit with additional evidence at any time via this portal.''])),
      (''internal_notes'',
         JStr (''ML fraud score: '' @ format_fixed 3 (fraud_score fraud_result) @
               ''. Signals: '' @ join '', '' (indicators fraud_result) @
               ''. Requires manual investigation before any payment.''))]"

definition empty_document_verification :: json where
  "empty_document_verification =
     JObj [(''declared_and_verified'', JArr []), (''declared_but_unverified'', JArr []),
           (''missing'', JArr [])]"

text \<open>The result substituted when the generated text does not parse.\<close>

definition parse_fallback :: "rat \<Rightarrow> exn \<Rightarrow> string \<Rightarrow> pydict" where
  "parse_fallback fs parse_err raw =
     [(''verdict'', JStr ''UNDER_INVESTIGATION''),
      (''coverage_applicable'', JBool False),
      (''fraud_risk'', JStr ''MEDIUM''),
      (''fraud_score'', JNum fs),
      (''document_verification'', empty_document_verification),
      (''document_guidance'', JArr []),
      (''missing_documents'', JArr []),
      (''fraud_signals_found'',
         JArr [JStr ''System could not fully evaluate the claim narrative'']),
      (''reason'', JStr ''Claim routed for manual review due to a processing anomaly.''),
      (''claimant_message'', JStr ''Dear Claimant, Your claim is being reviewed by our team.''),
      (''required_documents_checklist'',
         JArr (map JStr [''Incident report'', ''Photo evidence'', ''Policy certificate''])),
      (''estimated_coverage_amount'', JNum 0),
      (''policy_references'', JArr []),
      (''next_steps'',
         JArr [JStr ''Await contact from a claims representative.'']),
      (''internal_notes'',
         JStr (''LLM parse error: '' @ str_exn parse_err @ ''. Raw: '' @ take 200 raw))]"

text \<open>
  Stage E: make sure the keys \<open>document_verification\<close> and \<open>document_guidance\<close> exist.
  A parsed value that is not an object raises here or at the first \<open>.get\<close> of stage F.
\<close>

definition stage_E :: "json \<Rightarrow> exn + pydict" where
  "stage_E parsed =
     (case parsed of
        JObj r \<Rightarrow>
          let r1 = (if dict_get r ''document_verification'' = None
                    then dict_set r ''document_verification'' empty_document_verification
                    else r);
              r2 = (if dict_get r1 ''document_guidance'' = None
                    then dict_set r1 ''document_guidance'' (JArr []) else r1)
          in Inr r2
      | _ \<Rightarrow> Inl TypeError)"

text \<open>Stage F: the fraud override of an APPROVED verdict.\<close>

definition stage_F :: "rat \<Rightarrow> pydict \<Rightarrow> exn + pydict" where
  "stage_F fs r =
     (if 0.65 \<le> fs \<and> dict_get r ''verdict'' = Some (JStr ''APPROVED'')
      then
        let r1 = dict_set r ''verdict'' (JStr ''UNDER_INVESTIGATION'');
            r2 = dict_set r1 ''fraud_risk'' (JStr ''HIGH'');
            r3 = dict_set r2 ''fraud_score'' (JNum fs)
        in (case dict_get r3 ''internal_notes'' of
              None \<Rightarrow>
                Inr (dict_set r3 ''internal_notes''
                       (JStr (''LLM overridden: ML='' @ format_fixed 3 fs @ ''. '')))
            | Some (JStr notes) \<Rightarrow>
                Inr (dict_set r3 ''internal_notes''
                       (JStr (''LLM overridden: ML='' @ format_fixed 3 fs @ ''. '' @ notes)))
            | Some _ \<Rightarrow> Inl TypeError)
      else Inr r)"

text \<open>
  Stage G, first half: the merged, de-duplicated list of insufficient documents,
  \<open>list(dict.fromkeys(result.get("missing_documents", []) + unverif + missing))\<close>.
\<close>

definition all_insufficient :: "pydict \<Rightarrow> exn + json list" where
  "all_insufficient r =
     (case (case dict_get r ''document_verification'' of None \<Rightarrow> JObj [] | Some v \<Rightarrow> v) of
        JObj doc_ver \<Rightarrow>
          let unverif = (case dict_get doc_ver ''declared_but_unverified'' of
                           None \<Rightarrow> JArr [] | Some v \<Rightarrow> v);
              missing = (case dict_get doc_ver ''missing'' of None \<Rightarrow> JArr [] | Some v \<Rightarrow> v);
              legacy = (case dict_get r ''missing_documents'' of None \<Rightarrow> JArr [] | Some v \<Rightarrow> v)
          in (case py_add legacy unverif of
                Inl e \<Rightarrow> Inl e
              | Inr s1 \<Rightarrow>
                  (case py_add s1 missing of
                     Inl e \<Rightarrow> Inl e
                   | Inr s2 \<Rightarrow> list_dict_fromkeys s2))
      | _ \<Rightarrow> Inl AttributeError)"

text \<open>Stage G: store the merged list; an APPROVED verdict with a non-empty list is held.\<close>

definition stage_G :: "pydict \<Rightarrow> exn + pydict" where
  "stage_G r =
     (case all_insufficient r of
        Inl e \<Rightarrow> Inl e
      | Inr docs \<Rightarrow>
          let r1 = dict_set r ''missing_documents'' (JArr docs)
          in if docs \<noteq> [] \<and> dict_get r1 ''verdict'' = Some (JStr ''APPROVED'')
             then Inr (dict_set r1 ''verdict'' (JStr ''PENDING_DOCUMENTS''))
             else Inr r1)"

text \<open>
  Stage I. The test \<open>not result.get("claimant_message") or len(...) < 30\<close> of both
  enrichment functions, and the functions themselves.
\<close>

definition message_inadequate :: "pydict \<Rightarrow> exn + bool" where
  "message_inadequate r =
     (case dict_get r ''claimant_message'' of
        None \<Rightarrow> Inr True
      | Some v \<Rightarrow>
          if \<not> truthy v then Inr True
          else (case py_len v of Inl e \<Rightarrow> Inl e | Inr n \<Rightarrow> Inr (n < 30)))"

definition enrich_pending_response :: "(json \<Rightarrow> string) \<Rightarrow> pydict \<Rightarrow> exn + pydict" where
  "enrich_pending_response rnd r =
     (case message_inadequate r of
        Inl e \<Rightarrow> Inl e
      | Inr False \<Rightarrow> Inr r
      | Inr True \<Rightarrow>
          (case py_iter (case dict_get r ''missing_documents'' of
                           None \<Rightarrow> JArr [] | Some v \<Rightarrow> v) of
             Inl e \<Rightarrow> Inl e
           | Inr missing \<Rightarrow>
               let missing_list =
                     (if missing \<noteq> [] then join newline (map (\<lambda>d. ''  * '' @ rnd d) missing)
                      else ''  * See required documents checklist below'')
               in Inr (dict_set r ''claimant_message''
                         (JStr (''Dear Claimant, the following required document(s) have not been submitted: ''
                                @ missing_list)))))"

definition enrich_rejected_response :: "(json \<Rightarrow> string) \<Rightarrow> pydict \<Rightarrow> exn + pydict" where
  "enrich_rejected_response rnd r =
     (case message_inadequate r of
        Inl e \<Rightarrow> Inl e
      | Inr False \<Rightarrow> Inr r
      | Inr True \<Rightarrow>
          let why = (case dict_get r ''reason'' of
                       None \<Rightarrow> ''The incident does not fall within the covered perils of your policy.''
                     | Some v \<Rightarrow> rnd v)
          in Inr (dict_set r ''claimant_message''
                    (JStr (''Dear Claimant, this claim cannot be approved at this time. Reason: ''
                           @ why))))"

definition stage_I :: "(json \<Rightarrow> string) \<Rightarrow> pydict \<Rightarrow> exn + pydict" where
  "stage_I rnd r =
     (let verdict = (case dict_get r ''verdict'' of
                       None \<Rightarrow> JStr ''UNDER_INVESTIGATION'' | Some v \<Rightarrow> v)
      in if verdict = JStr ''PENDING_DOCUMENTS'' then enrich_pending_response rnd r
         else if verdict = JStr ''REJECTED'' then enrich_rejected_response rnd r
         else Inr r)"

text \<open>
  The last assignment:
  \<open>result["fraud_score"] = round(max(fraud_score, result.get("fraud_score", 0.0)), 3)\<close>.
\<close>

definition final_fraud_score :: "rat \<Rightarrow> pydict \<Rightarrow> exn + pydict" where
  "final_fraud_score fs r =
     (case as_number (case dict_get r ''fraud_score'' of None \<Rightarrow> JNum 0 | Some v \<Rightarrow> v) of
        None \<Rightarrow> Inl TypeError
      | Some g \<Rightarrow> Inr (dict_set r ''fraud_score'' (JNum (py_round (max fs g) 3))))"

text \<open>Stages E to I on the parsed (or substituted) result.\<close>

definition override_checks ::
  "(json \<Rightarrow> string) \<Rightarrow> rat \<Rightarrow> string list \<Rightarrow> json \<Rightarrow> exn + pydict" where
  "override_checks rnd fs submitted_docs parsed =
     (case stage_E parsed of
        Inl e \<Rightarrow> Inl e
      | Inr rE \<Rightarrow>
          (case stage_F fs rE of
             Inl e \<Rightarrow> Inl e
           | Inr rF \<Rightarrow>
               (case stage_G rF of
                  Inl e \<Rightarrow> Inl e
                | Inr rG \<Rightarrow>
                    (case stage_I rnd
                            (dict_set rG ''submitted_documents_echo''
                               (JArr (map JStr submitted_docs))) of
                       Inl e \<Rightarrow> Inl e
                     | Inr rI \<Rightarrow> final_fraud_score fs rI))))"

text \<open>Stage D: parse the generated text; substitute the fallback result on failure.\<close>

definition parse_result :: "claim_world \<Rightarrow> rat \<Rightarrow> string \<Rightarrow> json" where
  "parse_result w fs raw =
     (case clean_json (json_loads w) raw of
        Inl parse_err \<Rightarrow> JObj (parse_fallback fs parse_err raw)
      | Inr parsed \<Rightarrow> parsed)"

text \<open>Stages D to I.\<close>

definition adjudicate ::
  "claim_world \<Rightarrow> rat \<Rightarrow> string list \<Rightarrow> string \<Rightarrow> exn + pydict" where
  "adjudicate w fs submitted_docs raw =
     override_checks (render w) fs submitted_docs (parse_result w fs raw)"

definition text_for_fraud :: "claim_request \<Rightarrow> string" where
  "text_for_fraud req =
     (case claim_description req of
        Some d \<Rightarrow> if d \<noteq> [] then d else (case query req of Some q \<Rightarrow> q | None \<Rightarrow> [])
      | None \<Rightarrow> (case query req of Some q \<Rightarrow> q | None \<Rightarrow> []))"

definition internal_error :: "exn \<Rightarrow> http_error" where
  "internal_error e = HTTPException 500 (''Claims processing failed: '' @ str_exn e)"

text \<open>Stage B: the policy context; a failed retrieval gives the empty context.\<close>

definition claim_context :: "claim_world \<Rightarrow> claim_request \<Rightarrow> string" where
  "claim_context w req =
     (case retrieve_context w (text_for_fraud req) of
        Inl e \<Rightarrow> []
      | Inr chunks \<Rightarrow> join (newline @ newline) chunks)"

definition submitted_docs_of :: "claim_request \<Rightarrow> string list" where
  "submitted_docs_of req = (case submitted_documents req of None \<Rightarrow> [] | Some ds \<Rightarrow> ds)"

text \<open>
  \<open>process_claim_endpoint\<close>: the collaborator calls made and the response, either the
  result dictionary or the HTTP error raised.
\<close>

definition process_claim_endpoint ::
  "claim_world \<Rightarrow> claim_request \<Rightarrow> call list \<times> (http_error + pydict)" where
  "process_claim_endpoint w req =
     (let text = text_for_fraud req
      in if py_strip text = []
         then ([], Inl (HTTPException 400 ''claim_description cannot be empty.''))
         else
           (case run_detect_fraud w text of
              Inl e \<Rightarrow> ([DetectFraud], Inl (internal_error e))
            | Inr fraud_result \<Rightarrow>
                if is_suspicious fraud_result
                then ([DetectFraud], Inr (build_under_investigation_response fraud_result))
                else
                  (case generate_response w (claim_context w req) req of
                     Inl e \<Rightarrow>
                       ([DetectFraud, RetrieveContext, GenerateResponse],
                        Inl (internal_error e))
                   | Inr raw \<Rightarrow>
                       ([DetectFraud, RetrieveContext, GenerateResponse],
                        (case adjudicate w (fraud_score fraud_result)
                                (submitted_docs_of req) raw of
                           Inl e \<Rightarrow> Inl (internal_error e)
                         | Inr result \<Rightarrow> Inr result)))))"

text \<open>The verdict a response reports.\<close>

definition verdict_of :: "pydict \<Rightarrow> json option" where
  "verdict_of r = dict_get r ''verdict''"

text \<open>The verdict of the response of a run, if the run returns a result.\<close>

definition response_verdict :: "call list \<times> (http_error + pydict) \<Rightarrow> json option" where
  "response_verdict outcome = (case snd outcome of Inl e \<Rightarrow> None | Inr r \<Rightarrow> verdict_of r)"

subsection \<open>Example inputs\<close>

text \<open>
  The six compiled patterns of \<open>_compile_fraud_patterns\<close>, their sources written
  without the backslash escapes, none of them matching; and the same with a match of the
  first pattern.
\<close>

definition pattern_sources :: "string list" where
  "pattern_sources =
     [''b(fake|forged|counterfeit|fabricated)b'',
      ''b(urgent|immediately|asap|right now)b.*b(claim|payment)b'',
      ''b(multiple|several|many)b.*b(claims|accidents|incidents)b'',
      ''$d{4,}.*b(cash|payment|reimburse)b'',
      ''b(pre-existing|prior|previous)b.*b(condition|injury|damage)b'',
      ''b(witness|proof|evidence)b.*b(unavailable|lost|missing)b'']"

definition no_match :: regex_obs where
  "no_match = \<lparr> pattern_search = map (\<lambda>p. (p, False)) pattern_sources, date_count = 0 \<rparr>"

definition first_match :: regex_obs where
  "first_match =
     \<lparr> pattern_search = (hd pattern_sources, True) # map (\<lambda>p. (p, False)) (tl pattern_sources),
       date_count = 0 \<rparr>"

text \<open>
  A claim, a fraud assessment below the suspicion threshold with a given score, and
  collaborators whose generated text parses to a given value.
\<close>

definition example_request :: claim_request where
  "example_request =
     \<lparr> claim_description = Some ''My parked car was hit.'', query = None,
       submitted_documents = Some [''Photos''] \<rparr>"

definition example_assessment :: "rat \<Rightarrow> bool \<Rightarrow> assessment" where
  "example_assessment fs flagged =
     \<lparr> fraud_score = fs, is_suspicious = flagged, confidence = 0.9, indicators = [],
       fraud_risk_level = MEDIUM, recommendation = [], detection_methods = None,
       explainability = False, error = None \<rparr>"

definition example_world :: "rat \<Rightarrow> bool \<Rightarrow> json \<Rightarrow> claim_world" where
  "example_world fs flagged parsed =
     \<lparr> run_detect_fraud = (\<lambda>t. Inr (example_assessment fs flagged)),
       retrieve_context = (\<lambda>t. Inr []),
       generate_response = (\<lambda>c r. Inr ''{}''),
       json_loads = (\<lambda>t. Inr parsed),
       render = (\<lambda>j. []) \<rparr>"

section \<open>Properties\<close>

subsection \<open>Rounding\<close>

lemma round_half_even_of_int [simp]: "round_half_even (of_int k) = k"
  by (simp add: round_half_even_def)

lemma round_half_even_mono_lower: "of_int k \<le> y \<Longrightarrow> k \<le> round_half_even y"
proof -
  assume "of_int k \<le> y"
  then have "k \<le> \<lfloor>y\<rfloor>" by (simp add: le_floor_iff)
  then show ?thesis by (simp add: round_half_even_def Let_def)
qed

lemma round_half_even_mono_upper: "y \<le> of_int k \<Longrightarrow> round_half_even y \<le> k"
proof (cases "y = of_int k")
  case True
  then show ?thesis by simp
next
  case False
  assume "y \<le> of_int k"
  with False have "y < of_int k" by simp
  then have "\<lfloor>y\<rfloor> < k" by (simp add: floor_less_iff)
  then show ?thesis by (simp add: round_half_even_def Let_def)
qed

lemma py_round_bounds:
  assumes "of_int lo \<le> x" and "x \<le> of_int hi"
  shows "of_int lo \<le> py_round x n \<and> py_round x n \<le> of_int hi"
proof -
  have p: "(0::rat) < 10 ^ n" by simp
  from assms(1) have "of_int (lo * 10 ^ n) \<le> x * 10 ^ n" by simp
  then have l: "lo * 10 ^ n \<le> round_half_even (x * 10 ^ n)"
    by (rule round_half_even_mono_lower)
  from assms(2) have "x * 10 ^ n \<le> of_int (hi * 10 ^ n)" by simp
  then have u: "round_half_even (x * 10 ^ n) \<le> hi * 10 ^ n"
    by (rule round_half_even_mono_upper)
  from l have "(of_int (lo * 10 ^ n) :: rat) \<le> of_int (round_half_even (x * 10 ^ n))"
    by (simp only: of_int_le_iff)
  then have l': "of_int lo \<le> py_round x n"
    using p by (simp add: py_round_def pos_le_divide_eq)
  from u have "(of_int (round_half_even (x * 10 ^ n)) :: rat) \<le> of_int (hi * 10 ^ n)"
    by (simp only: of_int_le_iff)
  then have u': "py_round x n \<le> of_int hi"
    using p by (simp add: py_round_def pos_divide_le_eq)
  from l' u' show ?thesis by simp
qed

lemma py_round_of_int [simp]: "py_round (of_int k) n = of_int k"
proof -
  have "(of_int k :: rat) * 10 ^ n = of_int (k * 10 ^ n)" by simp
  then have "round_half_even (of_int k * 10 ^ n) = k * 10 ^ n"
    by (simp only: round_half_even_of_int)
  then show ?thesis by (simp add: py_round_def)
qed

subsection \<open>The underwriting decision ladder\<close>

text \<open>
  C5. For every risk score and every configuration, the decision is the ordered ladder
  score \<le> auto-approve \<rightarrow> APPROVE; else score \<ge> auto-reject \<rightarrow> REJECT; else
  review-min \<le> score \<le> review-max \<rightarrow> MANUAL_REVIEW; else score < review-min \<rightarrow>
  APPROVE; else REJECT. A score exactly at the auto-approve threshold is approved; a
  score exactly at the auto-reject threshold is rejected (whenever the auto-approve
  threshold lies below it, as in the default bands 30/85); a score one unit above the
  lower end of the manual-review band goes to manual review (whenever that score lies
  above the auto-approve threshold, below the auto-reject threshold and inside the
  band), and so do 71 and 84 with the default band 70..85.
\<close>

theorem underwriting_decision_ladder:
  "fst (make_underwriting_decision st x) =
     (if x \<le> of_int (auto_approve_threshold st) then APPROVE
      else if x \<ge> of_int (auto_reject_threshold st) then REJECT
      else if of_int (requires_human_review_min st) \<le> x
              \<and> x \<le> of_int (requires_human_review_max st) then MANUAL_REVIEW
      else if x < of_int (requires_human_review_min st) then APPROVE
      else REJECT)
   \<and> fst (make_underwriting_decision st (of_int (auto_approve_threshold st))) = APPROVE
   \<and> (auto_approve_threshold st < auto_reject_threshold st \<longrightarrow>
        fst (make_underwriting_decision st (of_int (auto_reject_threshold st))) = REJECT)
   \<and> (auto_approve_threshold st < requires_human_review_min st + 1
        \<and> requires_human_review_min st + 1 < auto_reject_threshold st
        \<and> requires_human_review_min st + 1 \<le> requires_human_review_max st \<longrightarrow>
        fst (make_underwriting_decision st (of_int (requires_human_review_min st + 1)))
          = MANUAL_REVIEW)
   \<and> fst (make_underwriting_decision default_settings 30) = APPROVE
   \<and> fst (make_underwriting_decision default_settings 85) = REJECT
   \<and> fst (make_underwriting_decision default_settings 71) = MANUAL_REVIEW
   \<and> fst (make_underwriting_decision default_settings 84) = MANUAL_REVIEW"
  by (simp add: make_underwriting_decision_def default_settings_def)

theorem underwriting_decision_ladder_witness:
  "auto_approve_threshold default_settings < auto_reject_threshold default_settings
   \<and> fst (make_underwriting_decision default_settings
            (of_int (auto_reject_threshold default_settings))) = REJECT"
  using underwriting_decision_ladder [of default_settings 0]
  by (simp add: default_settings_def)

subsection \<open>The premium\<close>






subsection \<open>The fraud ensemble\<close>

lemma weighted_average_four:
  "weighted_average [a, b, c, d] = Inr ((a * 0.2 + b * 0.4 + c * 0.2 + d * 0.2) / (0.2 + 0.4 + 0.2 + 0.2))"
  by (simp add: weighted_average_def weights_def)


lemma ensemble_Inr:
  assumes "weighted_average (fraud_scores_of results) = Inr x"
  shows "\<exists>a. ensemble st results shap = Inr a \<and> fraud_score a = py_round x 3
            \<and> is_suspicious a = (fraud_threshold st < x) \<and> error a = None"
  using assms by (simp add: ensemble_def Let_def split: prod.splits)

lemma ensemble_Inl:
  assumes "weighted_average (fraud_scores_of results) = Inl e"
  shows "ensemble st results shap = Inl e"
  using assms by (simp add: ensemble_def Let_def)

lemma ensemble_cases:
  "(\<exists>e. ensemble st results shap = Inl e \<and> weighted_average (fraud_scores_of results) = Inl e)
   \<or> (\<exists>a x. ensemble st results shap = Inr a \<and> weighted_average (fraud_scores_of results) = Inr x
        \<and> fraud_score a = py_round x 3)"
proof (cases "weighted_average (fraud_scores_of results)")
  case (Inl e)
  then show ?thesis using ensemble_Inl by blast
next
  case (Inr x)
  then show ?thesis using ensemble_Inr [OF Inr, of st shap] by blast
qed

text \<open>
  The suspicion flag compares the unrounded weighted average with the configured
  threshold; the reported score is that average rounded to 3 decimals.
\<close>

lemma ensemble_suspicious:
  assumes "ensemble st results shap = Inr a"
    and "weighted_average (fraud_scores_of results) = Inr x"
  shows "is_suspicious a = (fraud_threshold st < x) \<and> fraud_score a = py_round x 3"
  using ensemble_Inr [OF assms(2), of st shap] assms(1) by auto

lemma detect_fraud_miss:
  assumes "load_models w = None" and "c (cache_key w text) = None"
  shows "detect_fraud st w c text results shap =
           (case ensemble st results shap of
              Inl e \<Rightarrow> (Inr (degraded_assessment e), c)
            | Inr result \<Rightarrow> (Inr result, c(cache_key w text \<mapsto> result)))"
  using assms by (simp add: detect_fraud_def)

lemma detect_fraud_hit:
  assumes "load_models w = None" and "c (cache_key w text) = Some cached"
  shows "detect_fraud st w c text results shap = (Inr cached, c)"
  using assms by (simp add: detect_fraud_def)

lemma detect_fraud_load_failure:
  assumes "load_models w = Some e"
  shows "detect_fraud st w c text results shap = (Inl e, c)"
  using assms by (simp add: detect_fraud_def)

lemma zip_weighted_bounds:
  fixes xs ws :: "rat list"
  assumes "length ws \<le> length xs" and "\<forall>s\<in>set xs. 0 \<le> s \<and> s \<le> 1" and "\<forall>v\<in>set ws. 0 \<le> v"
  shows "0 \<le> sum_list (map (\<lambda>(s, v). s * v) (zip xs ws))
         \<and> sum_list (map (\<lambda>(s, v). s * v) (zip xs ws)) \<le> sum_list ws"
  using assms
proof (induction ws arbitrary: xs)
  case Nil
  then show ?case by simp
next
  case (Cons v vs)
  then obtain s ss where xs: "xs = s # ss" by (cases xs) auto
  with Cons.prems have s: "0 \<le> s" "s \<le> 1" and v: "0 \<le> v" by auto
  from xs Cons.prems have ih: "0 \<le> sum_list (map (\<lambda>(s, v). s * v) (zip ss vs))
         \<and> sum_list (map (\<lambda>(s, v). s * v) (zip ss vs)) \<le> sum_list vs"
    by (intro Cons.IH) auto
  have "0 \<le> s * v" using s v by simp
  moreover have "s * v \<le> v" using s v by (simp add: mult_left_le_one_le)
  ultimately show ?case using ih xs by simp
qed

lemma weighted_average_bounds:
  assumes "\<forall>s\<in>set xs. 0 \<le> s \<and> s \<le> 1" and "weighted_average xs = Inr x"
  shows "0 \<le> x \<and> x \<le> 1"
proof -
  let ?used = "take (length xs) weights"
  let ?num = "sum_list (map (\<lambda>(s, v). s * v) (zip xs ?used))"
  from assms(2) have nz: "sum_list ?used \<noteq> 0" and x: "x = ?num / sum_list ?used"
    by (auto simp: weighted_average_def Let_def split: if_splits)
  have pos: "\<forall>v\<in>set ?used. 0 \<le> v"
    using set_take_subset [of "length xs" weights] by (auto simp: weights_def)
  have "length ?used \<le> length xs" by simp
  from zip_weighted_bounds [OF this assms(1) pos]
  have b: "0 \<le> ?num" "?num \<le> sum_list ?used" by simp_all
  have "0 \<le> sum_list ?used" using pos by (simp add: sum_list_nonneg)
  with nz have d: "0 < sum_list ?used" by simp
  from b d show ?thesis unfolding x by (simp add: divide_le_eq_1)
qed

lemma pattern_loop_nonneg: "0 \<le> s \<Longrightarrow> 0 \<le> fst (pattern_loop ps (s, ind))"
  by (induction ps "(s, ind)" arbitrary: s ind rule: pattern_loop.induct) auto

lemma pattern_score_bounds:
  "0 \<le> dr_score (pattern_based_detection rx text) \<and> dr_score (pattern_based_detection rx text) \<le> 1"
proof -
  obtain s0 i0 where p: "pattern_loop (pattern_search rx) (0, []) = (s0, i0)"
    by (cases "pattern_loop (pattern_search rx) (0, [])")
  have "0 \<le> s0" using pattern_loop_nonneg [of 0 "pattern_search rx" "[]"] p by simp
  then show ?thesis by (simp add: pattern_based_detection_def p Let_def)
qed

lemma ml_score_bounds:
  assumes "\<forall>r. classified = Inr r \<longrightarrow> 0 \<le> cl_score r \<and> cl_score r \<le> 1"
  shows "0 \<le> dr_score (ml_based_detection classified) \<and> dr_score (ml_based_detection classified) \<le> 1"
  using assms by (cases classified) (auto simp: ml_based_detection_def)

lemma sentiment_score_bounds:
  "0 \<le> dr_score (sentiment_based_detection sentiment) \<and> dr_score (sentiment_based_detection sentiment) \<le> 1"
  by (cases sentiment) (auto simp: sentiment_based_detection_def)

lemma statistical_score_bounds:
  "0 \<le> dr_score (statistical_anomaly_detection features text metadata)
   \<and> dr_score (statistical_anomaly_detection features text metadata) \<le> 1"
  by (auto simp: statistical_anomaly_detection_def Let_def split: option.splits)


lemma detect_fraud_four:
  assumes "load_models w = None" and "c (cache_key w text) = None"
  shows "\<exists>a. fst (detect_fraud st w c text [Inr p, Inr m, Inr s, Inr t] shap) = Inr a
           \<and> fraud_score a =
               py_round ((dr_score p * 0.2 + dr_score m * 0.4 + dr_score s * 0.2
                          + dr_score t * 0.2) / (0.2 + 0.4 + 0.2 + 0.2)) 3
           \<and> error a = None"
proof -
  have "weighted_average (fraud_scores_of [Inr p, Inr m, Inr s, Inr t]) =
          Inr ((dr_score p * 0.2 + dr_score m * 0.4 + dr_score s * 0.2 + dr_score t * 0.2)
               / (0.2 + 0.4 + 0.2 + 0.2))"
    by (simp only: fraud_scores_of.simps weighted_average_four)
  from ensemble_Inr [OF this, of st shap] obtain a where
    a: "ensemble st [Inr p, Inr m, Inr s, Inr t] shap = Inr a"
       "fraud_score a = py_round ((dr_score p * 0.2 + dr_score m * 0.4 + dr_score s * 0.2
                       + dr_score t * 0.2) / (0.2 + 0.4 + 0.2 + 0.2)) 3"
       "error a = None"
    by blast
  show ?thesis
    using assms a by (simp add: detect_fraud_def)
qed

lemma ml_failure_score: "ml_based_detection (Inl e) = \<lparr> dr_score = 0.5, dr_indicators = [] \<rparr>"
  by (simp add: ml_based_detection_def)




text \<open>
  When an exception entry does reach the aggregation, the weights are taken by position
  among the surviving scores: with a failure in second place the third detector's score
  is weighted 0.4 and the divisor is 0.8.
\<close>

lemma prefix_weights_after_failure:
  "weighted_average (fraud_scores_of [Inr p, Inl e, Inr s, Inr t]) =
     Inr ((dr_score p * 0.2 + dr_score s * 0.4 + dr_score t * 0.2) / (0.2 + 0.4 + 0.2))"
  by (simp add: weighted_average_def weights_def)

text \<open>
  C3, as stated, at a short narrative with a very negative sentiment and a claim amount
  of 60000, the model classifier raising: the detector scores are pattern 0.1,
  sentiment 0.3, statistical 0.15, and the reported fraud score is 0.31, not the three
  scores renormalised over weights 0.2, 0.2, 0.2 (which would be 0.183).
\<close>

theorem model_failure_renormalisation_counterexample:
  "reported_score
     (fst (detect_fraud default_settings \<lparr> load_models = None, md5_hexdigest = (\<lambda>t. t) \<rparr>
            Map.empty ''car hit''
            (gather_detectors no_match
               (Inl (Exn ''model down''))
               (Inr \<lparr> cl_label = ''NEGATIVE'', cl_score = 0.99 \<rparr>) None ''car hit''
               (Some [(''claim_amount'', JNum 60000)])) False))
   \<noteq> Some (py_round
        ((dr_score (pattern_based_detection no_match ''car hit'') * 0.2
          + dr_score (sentiment_based_detection
                        (Inr \<lparr> cl_label = ''NEGATIVE'', cl_score = 0.99 \<rparr>)) * 0.2
          + dr_score (statistical_anomaly_detection None ''car hit''
                        (Some [(''claim_amount'', JNum 60000)])) * 0.2)
         / (0.2 + 0.2 + 0.2)) 3)"
  by code_simp

text \<open>
  C3, amended. If the model classifier raises while the pattern, sentiment and
  statistical detectors succeed (models loaded, no cached result), the model-based
  detector absorbs the failure and reports the neutral score 0.5, so that all four
  scores are aggregated with the full weights 0.2, 0.4, 0.2, 0.2 (summing to 1.0) and
  rounded to 3 decimals; a result is produced, and it is not the error result.
\<close>

theorem model_failure_neutral_score:
  "load_models w = None \<and> c (cache_key w text) = None \<longrightarrow>
     (\<exists>a. fst (detect_fraud st w c text
                 (gather_detectors rx (Inl e) sentiment features text metadata) shap) = Inr a
        \<and> fraud_score a =
            py_round ((dr_score (pattern_based_detection rx text) * 0.2
                       + 0.5 * 0.4
                       + dr_score (sentiment_based_detection sentiment) * 0.2
                       + dr_score (statistical_anomaly_detection features text metadata) * 0.2)
                      / (0.2 + 0.4 + 0.2 + 0.2)) 3
        \<and> error a = None)"
proof
  assume "load_models w = None \<and> c (cache_key w text) = None"
  then have miss: "load_models w = None" "c (cache_key w text) = None" by simp_all
  from detect_fraud_four [of w c "text", OF miss, of st "pattern_based_detection rx text"
      "ml_based_detection (Inl e)" "sentiment_based_detection sentiment"
      "statistical_anomaly_detection features text metadata" shap]
  show "\<exists>a. fst (detect_fraud st w c text
                 (gather_detectors rx (Inl e) sentiment features text metadata) shap) = Inr a
        \<and> fraud_score a =
            py_round ((dr_score (pattern_based_detection rx text) * 0.2
                       + 0.5 * 0.4
                       + dr_score (sentiment_based_detection sentiment) * 0.2
                       + dr_score (statistical_anomaly_detection features text metadata) * 0.2)
                      / (0.2 + 0.4 + 0.2 + 0.2)) 3
        \<and> error a = None"
    by (simp only: gather_detectors_def ml_failure_score detection_result.select_convs)
qed

theorem model_failure_neutral_score_witness:
  "load_models \<lparr> load_models = None, md5_hexdigest = (\<lambda>t. t) \<rparr> = None
   \<and> Map.empty (cache_key \<lparr> load_models = None, md5_hexdigest = (\<lambda>t. t) \<rparr> ''car hit'')
       = (None :: assessment option)
   \<and> reported_score
        (fst (detect_fraud default_settings \<lparr> load_models = None, md5_hexdigest = (\<lambda>t. t) \<rparr>
               Map.empty ''car hit''
               (gather_detectors no_match
                  (Inl (Exn ''model down''))
                  (Inr \<lparr> cl_label = ''NEGATIVE'', cl_score = 0.99 \<rparr>) None ''car hit''
                  (Some [(''claim_amount'', JNum 60000)])) False)) = Some 0.31"
proof -
  have r: "py_round ((dr_score (pattern_based_detection no_match ''car hit'') * 0.2
                       + 0.5 * 0.4
                       + dr_score (sentiment_based_detection (Inr \<lparr> cl_label = ''NEGATIVE'', cl_score = 0.99 \<rparr>)) * 0.2
                       + dr_score (statistical_anomaly_detection None ''car hit'' (Some [(''claim_amount'', JNum 60000)])) * 0.2)
                      / (0.2 + 0.4 + 0.2 + 0.2)) 3 = 0.31"
    by code_simp
  from model_failure_neutral_score [of "\<lparr> load_models = None, md5_hexdigest = (\<lambda>t. t) \<rparr>"
        Map.empty "''car hit''" default_settings "no_match"
        "Exn ''model down''" "Inr \<lparr> cl_label = ''NEGATIVE'', cl_score = 0.99 \<rparr>" None
        "Some [(''claim_amount'', JNum 60000)]" False]
  show ?thesis
    by (auto simp only: r fraud_world.select_convs simp_thms reported_score_def sum.case)
qed

lemma fraud_scores_of_all_failed:
  "fraud_scores_of [Inl e1, Inl e2, Inl e3, Inl e4] = []"
  by simp






subsection \<open>Score ranges\<close>

lemma cache_ok_empty: "cache_ok Map.empty"
  by (simp add: cache_ok_def)

lemma cache_ok_update:
  "cache_ok c \<Longrightarrow> 0 \<le> fraud_score a \<Longrightarrow> fraud_score a \<le> 1 \<Longrightarrow> cache_ok (c(k \<mapsto> a))"
  by (simp add: cache_ok_def)

lemma ensemble_score_range:
  assumes "\<forall>s\<in>set (fraud_scores_of results). 0 \<le> s \<and> s \<le> 1"
    and "ensemble st results shap = Inr a"
  shows "0 \<le> fraud_score a \<and> fraud_score a \<le> 1"
proof -
  from ensemble_cases [of st results shap] assms(2)
  obtain x where x: "weighted_average (fraud_scores_of results) = Inr x"
    and a: "fraud_score a = py_round x 3"
    by auto
  from weighted_average_bounds [OF assms(1) x] have "of_int 0 \<le> x" "x \<le> of_int 1" by simp_all
  from py_round_bounds [OF this, of 3] show ?thesis unfolding a by simp
qed

lemma detect_fraud_score_range:
  assumes ok: "cache_ok c"
    and scores: "\<forall>s\<in>set (fraud_scores_of results). 0 \<le> s \<and> s \<le> 1"
    and ret: "fst (detect_fraud st w c text results shap) = Inr a"
  shows "0 \<le> fraud_score a \<and> fraud_score a \<le> 1"
proof (cases "load_models w")
  case (Some e)
  with ret show ?thesis by (simp add: detect_fraud_def)
next
  case None
  show ?thesis
  proof (cases "c (cache_key w text)")
    case (Some cached)
    with None ret have "a = cached" by (simp add: detect_fraud_def)
    with Some ok show ?thesis by (auto simp: cache_ok_def)
  next
    case miss: None
    show ?thesis
    proof (cases "ensemble st results shap")
      case (Inl e)
      with None miss ret have "a = degraded_assessment e" by (simp add: detect_fraud_def)
      then show ?thesis by (simp add: degraded_assessment_def)
    next
      case (Inr r)
      with None miss ret have "a = r" by (simp add: detect_fraud_def)
      with Inr ensemble_score_range [OF scores] show ?thesis by blast
    qed
  qed
qed

lemma detect_fraud_cache_ok:
  assumes ok: "cache_ok c"
    and scores: "\<forall>s\<in>set (fraud_scores_of results). 0 \<le> s \<and> s \<le> 1"
  shows "cache_ok (snd (detect_fraud st w c text results shap))"
proof (cases "ensemble st results shap")
  case (Inl e)
  with ok show ?thesis by (simp add: detect_fraud_def split: option.splits)
next
  case (Inr r)
  from ensemble_score_range [OF scores Inr] have "cache_ok (c(cache_key w text \<mapsto> r))"
    using ok by (simp add: cache_ok_update)
  with ok Inr show ?thesis by (simp add: detect_fraud_def split: option.splits)
qed

lemma gather_detectors_scores:
  assumes "\<forall>r. classified = Inr r \<longrightarrow> 0 \<le> cl_score r \<and> cl_score r \<le> 1"
  shows "\<forall>s\<in>set (fraud_scores_of (gather_detectors rx classified sentiment features text metadata)).
           0 \<le> s \<and> s \<le> 1"
  using pattern_score_bounds [of rx "text"] ml_score_bounds [OF assms]
    sentiment_score_bounds [of sentiment] statistical_score_bounds [of features "text" metadata]
  by (simp add: gather_detectors_def)

lemma aggregate_risk_score_range:
  "0 \<le> aggregate_risk_score base financial external fraud
   \<and> aggregate_risk_score base financial external fraud \<le> 100"
  by (simp add: aggregate_risk_score_def Let_def)

lemma complete_assessment_score:
  assumes "complete_assessment st w policy_type coverage ex base financial external fraud = Inr r"
  shows "risk_score r = py_round (aggregate_risk_score base financial external fraud) 2
         \<and> ra_decision r = fst (make_underwriting_decision st (aggregate_risk_score base financial external fraud))
         \<and> ra_error r = None"
  using assms
  by (auto simp: complete_assessment_def Let_def split: prod.splits sum.splits if_splits)

lemma complete_assessment_range:
  assumes "complete_assessment st w policy_type coverage ex base financial external fraud = Inr r"
  shows "0 \<le> risk_score r \<and> risk_score r \<le> 100"
proof -
  from aggregate_risk_score_range [of base financial external fraud]
  have "of_int 0 \<le> aggregate_risk_score base financial external fraud"
       "aggregate_risk_score base financial external fraud \<le> of_int 100" by simp_all
  from py_round_bounds [OF this, of 2] complete_assessment_score [OF assms]
  show ?thesis by simp
qed

lemma assess_risk_body_range:
  assumes "assess_risk_body st w policy_type coverage fc ex = Inr r"
  shows "0 \<le> risk_score r \<and> risk_score r \<le> 100"
  using assms complete_assessment_range
  by (auto simp: assess_risk_body_def Let_def fraud_rejection_def
           split: option.splits sum.splits if_splits)

lemma assess_risk_range:
  "0 \<le> risk_score (assess_risk st w policy_type coverage fc ex)
   \<and> risk_score (assess_risk st w policy_type coverage fc ex) \<le> 100"
proof (cases "assess_risk_body st w policy_type coverage fc ex")
  case (Inl e)
  then show ?thesis by (simp add: assess_risk_def risk_fallback_def)
next
  case (Inr r)
  with assess_risk_body_range [OF Inr] show ?thesis by (simp add: assess_risk_def)
qed

text \<open>
  C8. The fraud ensemble's reported fraud score lies in [0, 1] for every input: every
  detector score lies in [0, 1] (the pattern and statistical scores are capped at 1 and
  start from 0, the sentiment score is 0, 0.2 or 0.3, the model score is the classifier's
  confidence or its complement, the classifier reporting a probability), the weighted
  average and the rounding keep the bounds, the error result reports 0.5, and a cached
  result was produced by an earlier call (the cache keeps the invariant, and the empty
  cache has it). The risk aggregator's reported risk score lies in [0, 100] for every
  input: the aggregate is clamped and then rounded, the fraud short-circuit reports 100
  and the error fallback 50.
\<close>

theorem score_ranges:
  "(cache_ok c \<and> (\<forall>r. classified = Inr r \<longrightarrow> 0 \<le> cl_score r \<and> cl_score r \<le> 1) \<longrightarrow>
      (\<forall>a. fst (detect_fraud st w c text
                   (gather_detectors rx classified sentiment features text metadata) shap) = Inr a
            \<longrightarrow> 0 \<le> fraud_score a \<and> fraud_score a \<le> 1)
      \<and> cache_ok (snd (detect_fraud st w c text
                          (gather_detectors rx classified sentiment features text metadata) shap)))
   \<and> cache_ok Map.empty
   \<and> 0 \<le> risk_score (assess_risk st rw policy_type coverage fc ex)
   \<and> risk_score (assess_risk st rw policy_type coverage fc ex) \<le> 100
   \<and> risk_score (fraud_rejection f) = 100
   \<and> risk_score (risk_fallback e) = 50"
proof -
  have fraud: "(\<forall>a. fst (detect_fraud st w c text
                   (gather_detectors rx classified sentiment features text metadata) shap) = Inr a
            \<longrightarrow> 0 \<le> fraud_score a \<and> fraud_score a \<le> 1)
      \<and> cache_ok (snd (detect_fraud st w c text
                          (gather_detectors rx classified sentiment features text metadata) shap))"
    if ok: "cache_ok c"
      and cl: "\<forall>r. classified = Inr r \<longrightarrow> 0 \<le> cl_score r \<and> cl_score r \<le> 1"
    using detect_fraud_score_range [OF ok gather_detectors_scores [OF cl]]
      detect_fraud_cache_ok [OF ok gather_detectors_scores [OF cl]]
    by blast
  have fixed: "risk_score (fraud_rejection f) = 100" "risk_score (risk_fallback e) = 50"
    by (simp_all add: fraud_rejection_def risk_fallback_def)
  from fraud cache_ok_empty assess_risk_range [of st rw policy_type coverage fc ex] fixed
  show ?thesis by blast
qed

theorem score_ranges_witness:
  "cache_ok Map.empty
   \<and> (0 :: rat) \<le> 0.9 \<and> (0.9 :: rat) \<le> 1
   \<and> (\<exists>a. fst (detect_fraud default_settings
                  \<lparr> load_models = None, md5_hexdigest = (\<lambda>t. t) \<rparr> Map.empty ''car hit''
                  (gather_detectors first_match
                     (Inr \<lparr> cl_label = ''FRAUD'', cl_score = 0.9 \<rparr>)
                     (Inl (Exn ''sentiment model down'')) None ''car hit'' None) False) = Inr a
          \<and> fraud_score a = 0.41 \<and> 0 \<le> fraud_score a \<and> fraud_score a \<le> 1)"
proof -
  have v: "reported_score
        (fst (detect_fraud default_settings \<lparr> load_models = None, md5_hexdigest = (\<lambda>t. t) \<rparr>
               Map.empty ''car hit''
               (gather_detectors first_match
                  (Inr \<lparr> cl_label = ''FRAUD'', cl_score = 0.9 \<rparr>)
                  (Inl (Exn ''sentiment model down'')) None ''car hit'' None) False))
       = Some 0.41"
    by code_simp
  then obtain a where a: "fst (detect_fraud default_settings
                  \<lparr> load_models = None, md5_hexdigest = (\<lambda>t. t) \<rparr> Map.empty ''car hit''
                  (gather_detectors first_match
                     (Inr \<lparr> cl_label = ''FRAUD'', cl_score = 0.9 \<rparr>)
                     (Inl (Exn ''sentiment model down'')) None ''car hit'' None) False) = Inr a"
      "fraud_score a = 0.41"
    by (auto simp: reported_score_def split: sum.splits)
  have h: "\<forall>r. (Inr \<lparr> cl_label = ''FRAUD'', cl_score = 0.9 \<rparr> :: exn + classification) = Inr r
             \<longrightarrow> 0 \<le> cl_score r \<and> cl_score r \<le> 1"
    by simp
  from score_ranges [of Map.empty "Inr \<lparr> cl_label = ''FRAUD'', cl_score = 0.9 \<rparr>"
      default_settings "\<lparr> load_models = None, md5_hexdigest = (\<lambda>t. t) \<rparr>" "''car hit''"
      "first_match"
      "Inl (Exn ''sentiment model down'')" None None False] h a
  show ?thesis by auto
qed

subsection \<open>The fallback of the risk assessment\<close>

lemma risk_fallback_fields:
  "risk_score (risk_fallback e) = 50"
  "ra_decision (risk_fallback e) = MANUAL_REVIEW"
  "ra_error (risk_fallback e) = Some (str_exn e)"
  "reason (risk_fallback e) = Some (''Error in automated assessment: '' @ str_exn e)"
  "ra_recommendation (risk_fallback e) = Some ''Requires manual underwriting review''"
  by (simp_all add: risk_fallback_def)

lemma assess_risk_body_parse_failure:
  "parse_applicant_data w = Some e \<Longrightarrow>
   assess_risk_body st w policy_type coverage fc ex = Inl e"
  by (simp add: assess_risk_body_def)

lemma complete_assessment_step_failures:
  "generate_recommendations w = Inl e \<Longrightarrow>
   complete_assessment st w policy_type coverage ex base financial external fraud = Inl e"
  "generate_recommendations w = Inr recs \<Longrightarrow> check_compliance w = Inl e \<Longrightarrow>
   complete_assessment st w policy_type coverage ex base financial external fraud = Inl e"
  "generate_recommendations w = Inr recs \<Longrightarrow> check_compliance w = Inr report \<Longrightarrow>
   run_scenario_analysis w = Inl e \<Longrightarrow>
   complete_assessment st w policy_type coverage True base financial external fraud = Inl e"
  by (simp_all add: complete_assessment_def Let_def split: prod.splits)

text \<open>
  C10. If an exception leaves the body of the risk-assessment pipeline (everything after
  model loading: for instance the parsing of the applicant data or the generation of
  recommendations raising), \<open>assess_risk\<close> does not raise: it returns the fallback
  result with risk score 50 and decision MANUAL_REVIEW, carrying the error text. In the
  model \<open>assess_risk\<close> returns a result for every input.
\<close>

theorem assess_risk_fallback:
  "(assess_risk_body st w policy_type coverage fc ex = Inl e \<longrightarrow>
      assess_risk st w policy_type coverage fc ex = risk_fallback e)
   \<and> (parse_applicant_data w = Some e \<longrightarrow>
        assess_risk st w policy_type coverage fc ex = risk_fallback e)
   \<and> (parse_applicant_data w = None \<and> generate_recommendations w = Inl e \<longrightarrow>
        assess_risk st w policy_type coverage False ex = risk_fallback e)
   \<and> risk_score (risk_fallback e) = 50
   \<and> ra_decision (risk_fallback e) = MANUAL_REVIEW
   \<and> ra_error (risk_fallback e) = Some (str_exn e)
   \<and> reason (risk_fallback e) = Some (''Error in automated assessment: '' @ str_exn e)"
proof -
  have 1: "assess_risk st w policy_type coverage fc ex = risk_fallback e"
    if "assess_risk_body st w policy_type coverage fc ex = Inl e"
    using that by (simp add: assess_risk_def)
  have 2: "assess_risk st w policy_type coverage fc ex = risk_fallback e"
    if "parse_applicant_data w = Some e"
    using assess_risk_body_parse_failure [OF that] by (simp add: assess_risk_def)
  have 3: "assess_risk st w policy_type coverage False ex = risk_fallback e"
    if "parse_applicant_data w = None" "generate_recommendations w = Inl e"
    using that complete_assessment_step_failures(1) [OF that(2)]
    by (simp add: assess_risk_def assess_risk_body_def Let_def)
  from 1 2 3 show ?thesis by (simp only: risk_fallback_fields simp_thms) blast
qed

theorem assess_risk_fallback_witness:
  "assess_risk_body default_settings
     \<lparr> parse_applicant_data = None,
          base_task = Inr \<lparr> br_score = 55, br_factors = [] \<rparr>,
          financial_task = Inr 2, external_task = Inl (Exn ''timeout''),
          context_task = Inr [], fraud_task = Inl (Exn ''fraud models missing''),
          generate_detailed_assessment = [],
          generate_recommendations = Inr [],
          check_compliance = Inl (Exn ''age is not a number''),
          run_scenario_analysis = Inr [] \<rparr>
     ''life'' None True True = Inl (Exn ''age is not a number'')
   \<and> risk_score (assess_risk default_settings
     \<lparr> parse_applicant_data = None,
          base_task = Inr \<lparr> br_score = 55, br_factors = [] \<rparr>,
          financial_task = Inr 2, external_task = Inl (Exn ''timeout''),
          context_task = Inr [], fraud_task = Inl (Exn ''fraud models missing''),
          generate_detailed_assessment = [],
          generate_recommendations = Inr [],
          check_compliance = Inl (Exn ''age is not a number''),
          run_scenario_analysis = Inr [] \<rparr>
     ''life'' None True True) = 50
   \<and> ra_decision (assess_risk default_settings
     \<lparr> parse_applicant_data = None,
          base_task = Inr \<lparr> br_score = 55, br_factors = [] \<rparr>,
          financial_task = Inr 2, external_task = Inl (Exn ''timeout''),
          context_task = Inr [], fraud_task = Inl (Exn ''fraud models missing''),
          generate_detailed_assessment = [],
          generate_recommendations = Inr [],
          check_compliance = Inl (Exn ''age is not a number''),
          run_scenario_analysis = Inr [] \<rparr>
     ''life'' None True True) = MANUAL_REVIEW
   \<and> ra_error (assess_risk default_settings
     \<lparr> parse_applicant_data = None,
          base_task = Inr \<lparr> br_score = 55, br_factors = [] \<rparr>,
          financial_task = Inr 2, external_task = Inl (Exn ''timeout''),
          context_task = Inr [], fraud_task = Inl (Exn ''fraud models missing''),
          generate_detailed_assessment = [],
          generate_recommendations = Inr [],
          check_compliance = Inl (Exn ''age is not a number''),
          run_scenario_analysis = Inr [] \<rparr>
     ''life'' None True True) = Some ''age is not a number''"
proof -
  have b: "assess_risk_body default_settings
     \<lparr> parse_applicant_data = None,
          base_task = Inr \<lparr> br_score = 55, br_factors = [] \<rparr>,
          financial_task = Inr 2, external_task = Inl (Exn ''timeout''),
          context_task = Inr [], fraud_task = Inl (Exn ''fraud models missing''),
          generate_detailed_assessment = [],
          generate_recommendations = Inr [],
          check_compliance = Inl (Exn ''age is not a number''),
          run_scenario_analysis = Inr [] \<rparr>
     ''life'' None True True = Inl (Exn ''age is not a number'')"
    by code_simp
  from assess_risk_fallback [of default_settings
     "\<lparr> parse_applicant_data = None,
          base_task = Inr \<lparr> br_score = 55, br_factors = [] \<rparr>,
          financial_task = Inr 2, external_task = Inl (Exn ''timeout''),
          context_task = Inr [], fraud_task = Inl (Exn ''fraud models missing''),
          generate_detailed_assessment = [],
          generate_recommendations = Inr [],
          check_compliance = Inl (Exn ''age is not a number''),
          run_scenario_analysis = Inr [] \<rparr>"
     "''life''" None True True "Exn ''age is not a number''"] b
  show ?thesis by simp
qed

subsection \<open>The claims adjudicator\<close>

lemma dict_get_set [simp]:
  "dict_get (dict_set d k v) k' = (if k' = k then Some v else dict_get d k')"
  by (simp add: dict_get_def dict_set_def update_conv')

lemma stage_E_keeps:
  assumes "stage_E parsed = Inr r'"
  shows "\<exists>r. parsed = JObj r
           \<and> dict_get r' ''verdict'' = dict_get r ''verdict''
           \<and> dict_get r' ''missing_documents'' = dict_get r ''missing_documents''
           \<and> dict_get r' ''document_verification'' =
               (case dict_get r ''document_verification'' of
                  None \<Rightarrow> Some empty_document_verification | Some v \<Rightarrow> Some v)"
  using assms by (cases parsed) (auto simp: stage_E_def Let_def split: if_splits)

lemma stage_F_not_approved:
  "dict_get r ''verdict'' \<noteq> Some (JStr ''APPROVED'') \<Longrightarrow> stage_F fs r = Inr r"
  by (simp add: stage_F_def)

lemma stage_F_low_score: "fs < 0.65 \<Longrightarrow> stage_F fs r = Inr r"
  by (simp add: stage_F_def)

lemma stage_F_override:
  assumes "0.65 \<le> fs" and "dict_get r ''verdict'' = Some (JStr ''APPROVED'')"
    and "stage_F fs r = Inr r'"
  shows "dict_get r' ''verdict'' = Some (JStr ''UNDER_INVESTIGATION'')
         \<and> dict_get r' ''fraud_risk'' = Some (JStr ''HIGH'')
         \<and> dict_get r' ''fraud_score'' = Some (JNum fs)"
  using assms
  by (auto simp: stage_F_def Let_def split: option.splits json.splits)

lemma stage_F_keeps:
  assumes "stage_F fs r = Inr r'"
  shows "dict_get r' ''document_verification'' = dict_get r ''document_verification''
         \<and> dict_get r' ''missing_documents'' = dict_get r ''missing_documents''"
  using assms
  by (auto simp: stage_F_def Let_def split: option.splits json.splits if_splits)

lemma all_insufficient_cong:
  assumes "dict_get r' ''document_verification'' = dict_get r ''document_verification''"
    and "dict_get r' ''missing_documents'' = dict_get r ''missing_documents''"
  shows "all_insufficient r' = all_insufficient r"
  unfolding all_insufficient_def assms ..

lemma all_insufficient_stage_E:
  assumes "stage_E (JObj r) = Inr r'"
  shows "all_insufficient r' = all_insufficient r"
proof -
  from stage_E_keeps [OF assms]
  have k: "dict_get r' ''missing_documents'' = dict_get r ''missing_documents''"
    and d: "dict_get r' ''document_verification'' =
               (case dict_get r ''document_verification'' of
                  None \<Rightarrow> Some empty_document_verification | Some v \<Rightarrow> Some v)"
    by auto
  show ?thesis
  proof (cases "dict_get r ''document_verification''")
    case None
    with d have d': "dict_get r' ''document_verification'' = Some empty_document_verification"
      by simp
    show ?thesis
      unfolding all_insufficient_def d' k None
      by (simp add: empty_document_verification_def dict_get_def)
  next
    case (Some v)
    with d have "dict_get r' ''document_verification'' = dict_get r ''document_verification''"
      by simp
    then show ?thesis using k by (rule all_insufficient_cong)
  qed
qed

lemma stage_G_result:
  assumes "stage_G r = Inr r'"
  shows "\<exists>docs. all_insufficient r = Inr docs
           \<and> dict_get r' ''missing_documents'' = Some (JArr docs)
           \<and> dict_get r' ''verdict'' =
               (if docs \<noteq> [] \<and> dict_get r ''verdict'' = Some (JStr ''APPROVED'')
                then Some (JStr ''PENDING_DOCUMENTS'') else dict_get r ''verdict'')
           \<and> dict_get r' ''fraud_risk'' = dict_get r ''fraud_risk''"
proof (cases "all_insufficient r")
  case (Inl e)
  with assms show ?thesis by (simp add: stage_G_def)
next
  case (Inr docs)
  show ?thesis
  proof (cases "docs \<noteq> [] \<and> dict_get r ''verdict'' = Some (JStr ''APPROVED'')")
    case True
    with Inr assms
    have "r' = dict_set (dict_set r ''missing_documents'' (JArr docs)) ''verdict''
                 (JStr ''PENDING_DOCUMENTS'')"
      by (simp add: stage_G_def Let_def)
    with Inr True show ?thesis by simp
  next
    case False
    with Inr assms have "r' = dict_set r ''missing_documents'' (JArr docs)"
      by (auto simp: stage_G_def Let_def)
    with Inr False show ?thesis by auto
  qed
qed

lemma enrich_pending_keeps:
  assumes "enrich_pending_response rnd r = Inr r'" and "k \<noteq> ''claimant_message''"
  shows "dict_get r' k = dict_get r k"
  using assms
  by (auto simp: enrich_pending_response_def Let_def split: sum.splits bool.splits)

lemma enrich_rejected_keeps:
  assumes "enrich_rejected_response rnd r = Inr r'" and "k \<noteq> ''claimant_message''"
  shows "dict_get r' k = dict_get r k"
  using assms
  by (auto simp: enrich_rejected_response_def Let_def split: sum.splits bool.splits)

lemma stage_I_keeps:
  assumes "stage_I rnd r = Inr r'" and "k \<noteq> ''claimant_message''"
  shows "dict_get r' k = dict_get r k"
  using assms enrich_pending_keeps enrich_rejected_keeps
  by (auto simp: stage_I_def Let_def split: if_splits)

lemma final_fraud_score_keeps:
  assumes "final_fraud_score fs r = Inr r'" and "k \<noteq> ''fraud_score''"
  shows "dict_get r' k = dict_get r k"
  using assms by (auto simp: final_fraud_score_def split: option.splits)


lemma override_checks_stages:
  assumes "override_checks rnd fs sd parsed = Inr result"
  obtains rE rF rG rI where
    "stage_E parsed = Inr rE" "stage_F fs rE = Inr rF" "stage_G rF = Inr rG"
    "stage_I rnd (dict_set rG ''submitted_documents_echo'' (JArr (map JStr sd))) = Inr rI"
    "final_fraud_score fs rI = Inr result"
  using assms by (auto simp: override_checks_def split: sum.splits)

lemma override_checks_result:
  assumes "override_checks rnd fs sd parsed = Inr result"
  shows "\<exists>r docs. parsed = JObj r \<and> all_insufficient r = Inr docs
           \<and> dict_get result ''missing_documents'' = Some (JArr docs)
           \<and> verdict_of result =
               (if 0.65 \<le> fs \<and> dict_get r ''verdict'' = Some (JStr ''APPROVED'')
                then Some (JStr ''UNDER_INVESTIGATION'')
                else if docs \<noteq> [] \<and> dict_get r ''verdict'' = Some (JStr ''APPROVED'')
                then Some (JStr ''PENDING_DOCUMENTS'')
                else dict_get r ''verdict'')
           \<and> (0.65 \<le> fs \<and> dict_get r ''verdict'' = Some (JStr ''APPROVED'') \<longrightarrow>
                dict_get result ''fraud_risk'' = Some (JStr ''HIGH''))"
proof -
  from assms obtain rE rF rG rI where
    E: "stage_E parsed = Inr rE" and F: "stage_F fs rE = Inr rF" and G: "stage_G rF = Inr rG"
    and I: "stage_I rnd (dict_set rG ''submitted_documents_echo'' (JArr (map JStr sd))) = Inr rI"
    and L: "final_fraud_score fs rI = Inr result"
    by (rule override_checks_stages)
  from stage_E_keeps [OF E] obtain r where
    r: "parsed = JObj r" and vE: "dict_get rE ''verdict'' = dict_get r ''verdict''"
    by blast
  from E r have "stage_E (JObj r) = Inr rE" by simp
  then have aE: "all_insufficient rE = all_insufficient r"
    by (rule all_insufficient_stage_E)
  from stage_F_keeps [OF F] have aF: "all_insufficient rF = all_insufficient rE"
    by (intro all_insufficient_cong) simp_all
  from stage_G_result [OF G] obtain docs where
    docs0: "all_insufficient rF = Inr docs"
    and mG: "dict_get rG ''missing_documents'' = Some (JArr docs)"
    and vG: "dict_get rG ''verdict'' =
               (if docs \<noteq> [] \<and> dict_get rF ''verdict'' = Some (JStr ''APPROVED'')
                then Some (JStr ''PENDING_DOCUMENTS'') else dict_get rF ''verdict'')"
    and fG: "dict_get rG ''fraud_risk'' = dict_get rF ''fraud_risk''"
    by blast
  from docs0 aF aE have docs: "all_insufficient r = Inr docs" by simp
  have keep: "dict_get result k = dict_get rG k"
    if "k \<noteq> ''claimant_message''" "k \<noteq> ''fraud_score''" "k \<noteq> ''submitted_documents_echo''"
    for k
    using final_fraud_score_keeps [OF L that(2)] stage_I_keeps [OF I that(1)] that(3)
    by simp
  have m: "dict_get result ''missing_documents'' = Some (JArr docs)"
    using keep [of "''missing_documents''"] mG by simp
  have v: "dict_get result ''verdict'' = dict_get rG ''verdict''"
    using keep [of "''verdict''"] by simp
  have f: "dict_get result ''fraud_risk'' = dict_get rG ''fraud_risk''"
    using keep [of "''fraud_risk''"] by simp
  show ?thesis
  proof (cases "0.65 \<le> fs \<and> dict_get r ''verdict'' = Some (JStr ''APPROVED'')")
    case True
    then have t1: "0.65 \<le> fs" and t2: "dict_get rE ''verdict'' = Some (JStr ''APPROVED'')"
      using vE by simp_all
    from stage_F_override [OF t1 t2 F]
    have vF: "dict_get rF ''verdict'' = Some (JStr ''UNDER_INVESTIGATION'')"
      and fF: "dict_get rF ''fraud_risk'' = Some (JStr ''HIGH'')"
      by simp_all
    from vG vF have "dict_get rG ''verdict'' = Some (JStr ''UNDER_INVESTIGATION'')"
      by simp
    with v have v': "verdict_of result = Some (JStr ''UNDER_INVESTIGATION'')"
      by (simp add: verdict_of_def)
    from f fG fF have f': "dict_get result ''fraud_risk'' = Some (JStr ''HIGH'')"
      by simp
    from r docs m v' f' True show ?thesis by simp
  next
    case False
    then have "stage_F fs rE = Inr rE"
      using vE by (auto simp: stage_F_def)
    with F have "rF = rE" by simp
    with vG vE have "dict_get rG ''verdict'' =
               (if docs \<noteq> [] \<and> dict_get r ''verdict'' = Some (JStr ''APPROVED'')
                then Some (JStr ''PENDING_DOCUMENTS'') else dict_get r ''verdict'')"
      by simp
    with v have v': "verdict_of result =
               (if docs \<noteq> [] \<and> dict_get r ''verdict'' = Some (JStr ''APPROVED'')
                then Some (JStr ''PENDING_DOCUMENTS'') else dict_get r ''verdict'')"
      by (simp add: verdict_of_def)
    have "parsed = JObj r \<and> all_insufficient r = Inr docs
           \<and> dict_get result ''missing_documents'' = Some (JArr docs)
           \<and> verdict_of result =
               (if 0.65 \<le> fs \<and> dict_get r ''verdict'' = Some (JStr ''APPROVED'')
                then Some (JStr ''UNDER_INVESTIGATION'')
                else if docs \<noteq> [] \<and> dict_get r ''verdict'' = Some (JStr ''APPROVED'')
                then Some (JStr ''PENDING_DOCUMENTS'')
                else dict_get r ''verdict'')
           \<and> (0.65 \<le> fs \<and> dict_get r ''verdict'' = Some (JStr ''APPROVED'') \<longrightarrow>
                dict_get result ''fraud_risk'' = Some (JStr ''HIGH''))"
      using r docs m False by (simp only: v' if_False simp_thms)
    then show ?thesis by blast
  qed
qed

lemma endpoint_override_run:
  assumes "process_claim_endpoint w req = (calls, Inr result)"
    and "GenerateResponse \<in> set calls"
  shows "\<exists>f raw. run_detect_fraud w (text_for_fraud req) = Inr f \<and> \<not> is_suspicious f
           \<and> generate_response w (claim_context w req) req = Inr raw
           \<and> override_checks (render w) (fraud_score f) (submitted_docs_of req)
                (parse_result w (fraud_score f) raw) = Inr result"
  using assms
  by (auto simp: process_claim_endpoint_def adjudicate_def Let_def
           split: if_splits sum.splits)

lemma endpoint_flagged_run:
  assumes "py_strip (text_for_fraud req) \<noteq> []"
    and "run_detect_fraud w (text_for_fraud req) = Inr f" and "is_suspicious f"
  shows "process_claim_endpoint w req = ([DetectFraud], Inr (build_under_investigation_response f))"
  using assms by (simp add: process_claim_endpoint_def Let_def)


lemma hash_key_JStr: "hash_key (JStr x) = Inr (JStr x)"
  by simp

lemma fromkeys_loop_strings:
  "\<exists>ys. fromkeys_loop seen out (map JStr xs) = Inr ys
        \<and> set ys = set out \<union> (JStr ` set xs - set seen)
        \<and> (distinct out \<and> set out \<subseteq> set seen \<longrightarrow> distinct ys)"
proof (induction xs arbitrary: seen out)
  case Nil
  then show ?case by simp
next
  case (Cons x xs)
  show ?case
  proof (cases "JStr x \<in> set seen")
    case True
    with Cons [of seen out] show ?thesis by auto
  next
    case False
    with Cons [of "seen @ [JStr x]" "out @ [JStr x]"] show ?thesis by auto
  qed
qed

lemma all_insufficient_strings:
  assumes "dict_get r ''missing_documents'' = Some (JArr (map JStr a))"
    and "dict_get r ''document_verification'' = Some (JObj dv)"
    and "dict_get dv ''declared_but_unverified'' = Some (JArr (map JStr b))"
    and "dict_get dv ''missing'' = Some (JArr (map JStr c))"
  shows "\<exists>docs. all_insufficient r = Inr docs
           \<and> set docs = JStr ` (set a \<union> set b \<union> set c) \<and> distinct docs"
proof -
  from fromkeys_loop_strings [of "[]" "[]" "a @ b @ c"]
  obtain ys where "fromkeys_loop [] [] (map JStr (a @ b @ c)) = Inr ys"
    and "set ys = JStr ` set (a @ b @ c)" and "distinct ys"
    by auto
  then show ?thesis
    using assms by (auto simp: all_insufficient_def list_dict_fromkeys_def Let_def)
qed

text \<open>
  C2. In every run that returns a result after the generated text was requested, with a
  pre-filter fraud score of at least 0.65 and a parsed verdict APPROVED, the final
  verdict is UNDER_INVESTIGATION and fraud_risk is HIGH. On a result whose verdict is
  anything other than APPROVED, the override (stage F) changes nothing.
\<close>

theorem fraud_override_of_approval:
  "(process_claim_endpoint w req = (calls, Inr result)
      \<and> GenerateResponse \<in> set calls
      \<and> run_detect_fraud w (text_for_fraud req) = Inr f
      \<and> 0.65 \<le> fraud_score f
      \<and> generate_response w (claim_context w req) req = Inr raw
      \<and> parse_result w (fraud_score f) raw = JObj r
      \<and> dict_get r ''verdict'' = Some (JStr ''APPROVED'')
    \<longrightarrow> verdict_of result = Some (JStr ''UNDER_INVESTIGATION'')
        \<and> dict_get result ''fraud_risk'' = Some (JStr ''HIGH''))
   \<and> (dict_get r' ''verdict'' \<noteq> Some (JStr ''APPROVED'') \<longrightarrow> stage_F fs r' = Inr r')"
proof -
  have a: "verdict_of result = Some (JStr ''UNDER_INVESTIGATION'')
        \<and> dict_get result ''fraud_risk'' = Some (JStr ''HIGH'')"
    if run: "process_claim_endpoint w req = (calls, Inr result)"
      and reached: "GenerateResponse \<in> set calls"
      and f: "run_detect_fraud w (text_for_fraud req) = Inr f"
      and high: "0.65 \<le> fraud_score f"
      and raw: "generate_response w (claim_context w req) req = Inr raw"
      and r: "parse_result w (fraud_score f) raw = JObj r"
      and v: "dict_get r ''verdict'' = Some (JStr ''APPROVED'')"
  proof -
    from endpoint_override_run [OF run reached] f raw r
    have "override_checks (render w) (fraud_score f) (submitted_docs_of req) (JObj r)
            = Inr result"
      by auto
    from override_checks_result [OF this] high v show ?thesis by auto
  qed
  have b: "stage_F fs r' = Inr r'" if "dict_get r' ''verdict'' \<noteq> Some (JStr ''APPROVED'')"
    using that by (rule stage_F_not_approved)
  from a b show ?thesis by blast
qed

theorem fraud_override_of_approval_witness:
  "fst (process_claim_endpoint
          (example_world 0.7 False (JObj [(''verdict'', JStr ''APPROVED'')])) example_request)
     = [DetectFraud, RetrieveContext, GenerateResponse]
   \<and> (0.65 :: rat) \<le> 0.7
   \<and> (\<exists>result.
         snd (process_claim_endpoint
                (example_world 0.7 False (JObj [(''verdict'', JStr ''APPROVED'')]))
                example_request) = Inr result
         \<and> verdict_of result = Some (JStr ''UNDER_INVESTIGATION'')
         \<and> dict_get result ''fraud_risk'' = Some (JStr ''HIGH''))"
proof -
  let ?w = "example_world 0.7 False (JObj [(''verdict'', JStr ''APPROVED'')])"
  have c: "fst (process_claim_endpoint ?w example_request)
             = [DetectFraud, RetrieveContext, GenerateResponse]"
    by code_simp
  have "response_verdict (process_claim_endpoint ?w example_request)
             = Some (JStr ''UNDER_INVESTIGATION'')"
    by code_simp
  then obtain result where s: "snd (process_claim_endpoint ?w example_request) = Inr result"
    by (auto simp: response_verdict_def split: sum.splits)
  from c s have run: "process_claim_endpoint ?w example_request
                        = ([DetectFraud, RetrieveContext, GenerateResponse], Inr result)"
    by (simp add: prod_eq_iff)
  have f: "run_detect_fraud ?w (text_for_fraud example_request)
             = Inr (example_assessment 0.7 False)"
    by (simp add: example_world_def)
  have sc: "fraud_score (example_assessment 0.7 False) = 0.7"
    by (simp add: example_assessment_def)
  have raw: "generate_response ?w (claim_context ?w example_request) example_request
               = Inr ''{}''"
    by (simp add: example_world_def)
  have p: "parse_result ?w (fraud_score (example_assessment 0.7 False)) ''{}''
             = JObj [(''verdict'', JStr ''APPROVED'')]"
    by (simp add: parse_result_def clean_json_def example_world_def Let_def)
  have v: "dict_get [(''verdict'', JStr ''APPROVED'')] ''verdict'' = Some (JStr ''APPROVED'')"
    by (simp add: dict_get_def)
  have g: "GenerateResponse \<in> set [DetectFraud, RetrieveContext, GenerateResponse]"
    by simp
  have hi: "0.65 \<le> fraud_score (example_assessment 0.7 False)"
    by (simp add: example_assessment_def)
  from fraud_override_of_approval [of ?w example_request
      "[DetectFraud, RetrieveContext, GenerateResponse]" result "example_assessment 0.7 False"
      "''{}''" "[(''verdict'', JStr ''APPROVED'')]"] run g f hi raw p v
  have "verdict_of result = Some (JStr ''UNDER_INVESTIGATION'')
        \<and> dict_get result ''fraud_risk'' = Some (JStr ''HIGH'')"
    by blast
  with c s show ?thesis by simp
qed

text \<open>
  C1, as stated, at a pre-filter fraud score of 0.7 (below the suspicion threshold) and
  a parsed result with verdict APPROVED and one legacy missing document: the merged list
  is not empty and the grounded decision produced APPROVED, and the final verdict is
  UNDER_INVESTIGATION, not PENDING_DOCUMENTS.
\<close>

theorem approval_with_missing_documents_counterexample:
  "all_insufficient [(''verdict'', JStr ''APPROVED''),
                     (''missing_documents'', JArr [JStr ''Police report''])]
     = Inr [JStr ''Police report'']
   \<and> response_verdict
        (process_claim_endpoint
           (example_world 0.7 False
              (JObj [(''verdict'', JStr ''APPROVED''),
                     (''missing_documents'', JArr [JStr ''Police report''])]))
           example_request)
       = Some (JStr ''UNDER_INVESTIGATION'')
   \<and> response_verdict
        (process_claim_endpoint
           (example_world 0.7 False
              (JObj [(''verdict'', JStr ''APPROVED''),
                     (''missing_documents'', JArr [JStr ''Police report''])]))
           example_request)
       \<noteq> Some (JStr ''PENDING_DOCUMENTS'')"
  by code_simp

text \<open>
  C1, amended. In every run that reaches the override stage and returns a result, the
  merged list of insufficient documents (the legacy missing_documents field, then
  declared_but_unverified, then missing, each name once) is stored in the result, and
  if it is non-empty the final verdict is never APPROVED: when the grounded decision
  produced APPROVED, the verdict is forced to PENDING_DOCUMENTS if the pre-filter fraud
  score is below 0.65, and has already been forced to UNDER_INVESTIGATION by the fraud
  override otherwise. For lists of document names the merged list holds exactly the
  names of the three lists, without repetition.
\<close>

theorem missing_documents_block_approval:
  "(process_claim_endpoint w req = (calls, Inr result)
      \<and> GenerateResponse \<in> set calls
      \<and> run_detect_fraud w (text_for_fraud req) = Inr f
      \<and> generate_response w (claim_context w req) req = Inr raw
    \<longrightarrow> (\<exists>r docs. parse_result w (fraud_score f) raw = JObj r
           \<and> all_insufficient r = Inr docs
           \<and> dict_get result ''missing_documents'' = Some (JArr docs)
           \<and> (docs \<noteq> [] \<longrightarrow> verdict_of result \<noteq> Some (JStr ''APPROVED''))
           \<and> (docs \<noteq> [] \<and> dict_get r ''verdict'' = Some (JStr ''APPROVED'')
                \<and> fraud_score f < 0.65
                \<longrightarrow> verdict_of result = Some (JStr ''PENDING_DOCUMENTS''))
           \<and> (docs \<noteq> [] \<and> dict_get r ''verdict'' = Some (JStr ''APPROVED'')
                \<and> 0.65 \<le> fraud_score f
                \<longrightarrow> verdict_of result = Some (JStr ''UNDER_INVESTIGATION''))))
   \<and> (dict_get p ''missing_documents'' = Some (JArr (map JStr a))
        \<and> dict_get p ''document_verification'' = Some (JObj dv)
        \<and> dict_get dv ''declared_but_unverified'' = Some (JArr (map JStr b))
        \<and> dict_get dv ''missing'' = Some (JArr (map JStr c))
      \<longrightarrow> (\<exists>docs. all_insufficient p = Inr docs
             \<and> set docs = JStr ` (set a \<union> set b \<union> set c) \<and> distinct docs))"
proof -
  have main: "\<exists>r docs. parse_result w (fraud_score f) raw = JObj r
           \<and> all_insufficient r = Inr docs
           \<and> dict_get result ''missing_documents'' = Some (JArr docs)
           \<and> (docs \<noteq> [] \<longrightarrow> verdict_of result \<noteq> Some (JStr ''APPROVED''))
           \<and> (docs \<noteq> [] \<and> dict_get r ''verdict'' = Some (JStr ''APPROVED'')
                \<and> fraud_score f < 0.65
                \<longrightarrow> verdict_of result = Some (JStr ''PENDING_DOCUMENTS''))
           \<and> (docs \<noteq> [] \<and> dict_get r ''verdict'' = Some (JStr ''APPROVED'')
                \<and> 0.65 \<le> fraud_score f
                \<longrightarrow> verdict_of result = Some (JStr ''UNDER_INVESTIGATION''))"
    if run: "process_claim_endpoint w req = (calls, Inr result)"
      and reached: "GenerateResponse \<in> set calls"
      and f: "run_detect_fraud w (text_for_fraud req) = Inr f"
      and raw: "generate_response w (claim_context w req) req = Inr raw"
  proof -
    from endpoint_override_run [OF run reached] f raw
    have "override_checks (render w) (fraud_score f) (submitted_docs_of req)
            (parse_result w (fraud_score f) raw) = Inr result"
      by auto
    from override_checks_result [OF this] obtain r docs where
      r: "parse_result w (fraud_score f) raw = JObj r"
      and docs: "all_insufficient r = Inr docs"
      and m: "dict_get result ''missing_documents'' = Some (JArr docs)"
      and v: "verdict_of result =
               (if 0.65 \<le> fraud_score f \<and> dict_get r ''verdict'' = Some (JStr ''APPROVED'')
                then Some (JStr ''UNDER_INVESTIGATION'')
                else if docs \<noteq> [] \<and> dict_get r ''verdict'' = Some (JStr ''APPROVED'')
                then Some (JStr ''PENDING_DOCUMENTS'')
                else dict_get r ''verdict'')"
      by blast
    have 1: "docs \<noteq> [] \<longrightarrow> verdict_of result \<noteq> Some (JStr ''APPROVED'')"
      unfolding v by simp
    have 2: "docs \<noteq> [] \<and> dict_get r ''verdict'' = Some (JStr ''APPROVED'')
                \<and> fraud_score f < 0.65
                \<longrightarrow> verdict_of result = Some (JStr ''PENDING_DOCUMENTS'')"
      unfolding v by simp
    have 3: "docs \<noteq> [] \<and> dict_get r ''verdict'' = Some (JStr ''APPROVED'')
                \<and> 0.65 \<le> fraud_score f
                \<longrightarrow> verdict_of result = Some (JStr ''UNDER_INVESTIGATION'')"
      unfolding v by simp
    from r docs m 1 2 3 show ?thesis by blast
  qed
  have merge: "\<exists>docs. all_insufficient p = Inr docs
             \<and> set docs = JStr ` (set a \<union> set b \<union> set c) \<and> distinct docs"
    if "dict_get p ''missing_documents'' = Some (JArr (map JStr a))"
       "dict_get p ''document_verification'' = Some (JObj dv)"
       "dict_get dv ''declared_but_unverified'' = Some (JArr (map JStr b))"
       "dict_get dv ''missing'' = Some (JArr (map JStr c))"
    using that by (rule all_insufficient_strings)
  from main merge show ?thesis by blast
qed

theorem missing_documents_block_approval_witness:
  "fst (process_claim_endpoint
          (example_world 0.3 False
             (JObj [(''verdict'', JStr ''APPROVED''),
                    (''document_verification'',
                     JObj [(''missing'', JArr [JStr ''Police report'', JStr ''Photos'']),
                           (''declared_but_unverified'', JArr [JStr ''Photos''])])]))
          example_request)
     = [DetectFraud, RetrieveContext, GenerateResponse]
   \<and> (\<exists>result.
         snd (process_claim_endpoint
                (example_world 0.3 False
                   (JObj [(''verdict'', JStr ''APPROVED''),
                          (''document_verification'',
                           JObj [(''missing'', JArr [JStr ''Police report'', JStr ''Photos'']),
                                 (''declared_but_unverified'', JArr [JStr ''Photos''])])]))
                example_request) = Inr result
         \<and> dict_get result ''missing_documents''
             = Some (JArr [JStr ''Photos'', JStr ''Police report''])
         \<and> verdict_of result = Some (JStr ''PENDING_DOCUMENTS''))"
proof -
  let ?r = "[(''verdict'', JStr ''APPROVED''),
             (''document_verification'',
              JObj [(''missing'', JArr [JStr ''Police report'', JStr ''Photos'']),
                    (''declared_but_unverified'', JArr [JStr ''Photos''])])]"
  let ?w = "example_world 0.3 False (JObj ?r)"
  have c: "fst (process_claim_endpoint ?w example_request)
             = [DetectFraud, RetrieveContext, GenerateResponse]"
    by code_simp
  have "response_verdict (process_claim_endpoint ?w example_request)
             = Some (JStr ''PENDING_DOCUMENTS'')"
    by code_simp
  then obtain result where s: "snd (process_claim_endpoint ?w example_request) = Inr result"
    by (auto simp: response_verdict_def split: sum.splits)
  from c s have run: "process_claim_endpoint ?w example_request
                        = ([DetectFraud, RetrieveContext, GenerateResponse], Inr result)"
    by (simp add: prod_eq_iff)
  have f: "run_detect_fraud ?w (text_for_fraud example_request)
             = Inr (example_assessment 0.3 False)"
    by (simp add: example_world_def)
  have sc: "fraud_score (example_assessment 0.3 False) = 0.3"
    by (simp add: example_assessment_def)
  have raw: "generate_response ?w (claim_context ?w example_request) example_request
               = Inr ''{}''"
    by (simp add: example_world_def)
  have p: "parse_result ?w (fraud_score (example_assessment 0.3 False)) ''{}'' = JObj ?r"
    by (simp add: parse_result_def clean_json_def example_world_def Let_def)
  have d: "all_insufficient ?r = Inr [JStr ''Photos'', JStr ''Police report'']"
    by code_simp
  have v: "dict_get ?r ''verdict'' = Some (JStr ''APPROVED'')"
    by (simp add: dict_get_def)
  have g: "GenerateResponse \<in> set [DetectFraud, RetrieveContext, GenerateResponse]"
    by simp
  from missing_documents_block_approval [of ?w example_request
      "[DetectFraud, RetrieveContext, GenerateResponse]" result "example_assessment 0.3 False"
      "''{}''"] run g f raw
  obtain r docs where
    o1: "parse_result ?w (fraud_score (example_assessment 0.3 False)) ''{}'' = JObj r"
    and o2: "all_insufficient r = Inr docs"
    and o3: "dict_get result ''missing_documents'' = Some (JArr docs)"
    and o4: "docs \<noteq> [] \<and> dict_get r ''verdict'' = Some (JStr ''APPROVED'')
       \<and> fraud_score (example_assessment 0.3 False) < 0.65
       \<longrightarrow> verdict_of result = Some (JStr ''PENDING_DOCUMENTS'')"
    by blast
  from o1 p have r: "r = ?r" by simp
  from o2 d have docs: "docs = [JStr ''Photos'', JStr ''Police report'']"
    unfolding r by simp
  have lt: "fraud_score (example_assessment 0.3 False) < 0.65"
    by (simp add: example_assessment_def)
  have ne: "docs \<noteq> []" unfolding docs by simp
  from v have v': "dict_get r ''verdict'' = Some (JStr ''APPROVED'')"
    unfolding r .
  from o4 ne v' lt have "verdict_of result = Some (JStr ''PENDING_DOCUMENTS'')"
    by blast
  with o3 docs have "dict_get result ''missing_documents''
             = Some (JArr [JStr ''Photos'', JStr ''Police report''])
         \<and> verdict_of result = Some (JStr ''PENDING_DOCUMENTS'')"
    by simp
  with c s show ?thesis by simp
qed

text \<open>
  C7. In every run in which the pre-filter assessment reports is_suspicious, the
  endpoint returns the investigator-handoff payload, whose verdict is
  UNDER_INVESTIGATION, after the single call to the fraud ensemble: the text generator
  is never called, and the response is the same whatever the retrieval, the generator
  and the parser would have produced.
\<close>

theorem suspicious_claim_short_circuit:
  "py_strip (text_for_fraud req) \<noteq> []
     \<and> run_detect_fraud w (text_for_fraud req) = Inr f \<and> is_suspicious f
   \<longrightarrow> process_claim_endpoint w req
         = ([DetectFraud], Inr (build_under_investigation_response f))
       \<and> response_verdict (process_claim_endpoint w req) = Some (JStr ''UNDER_INVESTIGATION'')
       \<and> GenerateResponse \<notin> set (fst (process_claim_endpoint w req))
       \<and> process_claim_endpoint
           (w\<lparr> retrieve_context := rc, generate_response := g, json_loads := l \<rparr>) req
         = process_claim_endpoint w req"
proof
  assume h: "py_strip (text_for_fraud req) \<noteq> []
     \<and> run_detect_fraud w (text_for_fraud req) = Inr f \<and> is_suspicious f"
  then have 1: "process_claim_endpoint w req
         = ([DetectFraud], Inr (build_under_investigation_response f))"
    by (simp add: endpoint_flagged_run)
  from h have 2: "process_claim_endpoint
           (w\<lparr> retrieve_context := rc, generate_response := g, json_loads := l \<rparr>) req
         = ([DetectFraud], Inr (build_under_investigation_response f))"
    by (simp add: endpoint_flagged_run)
  have 3: "verdict_of (build_under_investigation_response f) = Some (JStr ''UNDER_INVESTIGATION'')"
    by (simp add: verdict_of_def build_under_investigation_response_def dict_get_def)
  from 1 2 3 show "process_claim_endpoint w req
         = ([DetectFraud], Inr (build_under_investigation_response f))
       \<and> response_verdict (process_claim_endpoint w req) = Some (JStr ''UNDER_INVESTIGATION'')
       \<and> GenerateResponse \<notin> set (fst (process_claim_endpoint w req))
       \<and> process_claim_endpoint
           (w\<lparr> retrieve_context := rc, generate_response := g, json_loads := l \<rparr>) req
         = process_claim_endpoint w req"
    by (simp add: response_verdict_def)
qed

theorem suspicious_claim_short_circuit_witness:
  "py_strip (text_for_fraud example_request) \<noteq> []
   \<and> is_suspicious (example_assessment 0.9 True)
   \<and> process_claim_endpoint
       (example_world 0.9 True (JObj [(''verdict'', JStr ''APPROVED'')])) example_request
     = ([DetectFraud], Inr (build_under_investigation_response (example_assessment 0.9 True)))
   \<and> response_verdict
        (process_claim_endpoint
           (example_world 0.9 True (JObj [(''verdict'', JStr ''APPROVED'')])) example_request)
     = Some (JStr ''UNDER_INVESTIGATION'')"
proof -
  have t: "py_strip (text_for_fraud example_request) \<noteq> []"
    by code_simp
  have f: "run_detect_fraud (example_world 0.9 True (JObj [(''verdict'', JStr ''APPROVED'')]))
             (text_for_fraud example_request) = Inr (example_assessment 0.9 True)"
    by (simp add: example_world_def)
  have s: "is_suspicious (example_assessment 0.9 True)"
    by (simp add: example_assessment_def)
  from suspicious_claim_short_circuit
         [of example_request "example_world 0.9 True (JObj [(''verdict'', JStr ''APPROVED'')])"
             "example_assessment 0.9 True"] t f s
  have "process_claim_endpoint
       (example_world 0.9 True (JObj [(''verdict'', JStr ''APPROVED'')])) example_request
     = ([DetectFraud], Inr (build_under_investigation_response (example_assessment 0.9 True)))
   \<and> response_verdict
        (process_claim_endpoint
           (example_world 0.9 True (JObj [(''verdict'', JStr ''APPROVED'')])) example_request)
     = Some (JStr ''UNDER_INVESTIGATION'')"
    by blast
  with t s show ?thesis by blast
qed

end
